theory Spec2Isabelle
  imports Main
begin

section \<open>Data model (src/types/index.ts)\<close>

text \<open>
  \<^verbatim>\<open>FeatureType\<close> and \<^verbatim>\<open>TargetType\<close> are unions of string literals; \<open>type_name\<close> gives
  the literal of a \<^verbatim>\<open>FeatureType\<close>, which is what \<^verbatim>\<open>===\<close> compares against a plain string.
\<close>

datatype FeatureType = T_feature | T_refactoring | T_bugfix | T_improvement | T_docs

datatype TargetType = T_web | T_mobile | T_shared | T_full | T_backend | T_api

fun type_name :: "FeatureType \<Rightarrow> string" where
  "type_name T_feature = ''feature''"
| "type_name T_refactoring = ''refactoring''"
| "type_name T_bugfix = ''bugfix''"
| "type_name T_improvement = ''improvement''"
| "type_name T_docs = ''docs''"

text \<open>
  \<^verbatim>\<open>interface Feature\<close>. The fields \<^verbatim>\<open>id\<close> and \<^verbatim>\<open>type\<close> are written \<open>id_f\<close> and \<open>type_f\<close>;
  an optional field is an \<open>option\<close>.
\<close>

record Feature =
  id_f :: string
  title :: string
  description :: string
  acceptance_criteria :: "string list"
  passes :: bool
  type_f :: "FeatureType option"
  target :: "TargetType option"

text \<open>\<^verbatim>\<open>interface FeatureList\<close> (its \<^verbatim>\<open>description\<close> is \<open>list_description\<close>).\<close>

record FeatureList =
  project_name :: string
  list_description :: string
  tech_stack :: "string list option"
  features :: "Feature list"

text \<open>\<^verbatim>\<open>interface SessionResult\<close>.\<close>

record SessionResult =
  success :: bool
  featureId :: string
  commitHash :: "string option"
  error :: "string option"
  progressEntry :: string

section \<open>Thrown values and durable state\<close>

text \<open>
  A thrown JavaScript value: an \<^verbatim>\<open>Error\<close> instance with its name and message, or any other
  value, kept as what \<^verbatim>\<open>String(v)\<close> gives. A computation that may throw (a promise that
  may reject) has the type \<open>thrown + 'a\<close>, \<open>Inl\<close> the thrown value.
\<close>

datatype thrown = Error_obj string string | Thrown_value string

text \<open>\<^verbatim>\<open>error instanceof Error ? error.message : String(error)\<close>\<close>

fun thrown_message :: "thrown \<Rightarrow> string" where
  "thrown_message (Error_obj n m) = m"
| "thrown_message (Thrown_value s) = s"

text \<open>\<^verbatim>\<open>`${error}`\<close>: \<^verbatim>\<open>Error.prototype.toString\<close> for an \<^verbatim>\<open>Error\<close> instance.\<close>

fun thrown_string :: "thrown \<Rightarrow> string" where
  "thrown_string (Error_obj n m) =
     (if n = [] then m else if m = [] then n else n @ '': '' @ m)"
| "thrown_string (Thrown_value s) = s"

text \<open>
  The file \<^verbatim>\<open>feature_list.json\<close> of a workspace: absent (\<^verbatim>\<open>existsSync\<close> is false), present
  but \<^verbatim>\<open>readFile\<close> or \<^verbatim>\<open>JSON.parse\<close> throws the given value, or present and parsing to a
  feature list. \<^verbatim>\<open>JSON.stringify\<close> followed by \<^verbatim>\<open>JSON.parse\<close> is taken to give the list back,
  so the file is kept as the list it holds.
\<close>

datatype stored = Absent | Unreadable thrown | Stored FeatureList

text \<open>
  The part of a workspace that the orchestration code touches: \<^verbatim>\<open>feature_list.json\<close>,
  \<^verbatim>\<open>progress.log\<close> (\<open>None\<close> when the file does not exist), the standard output of
  \<^verbatim>\<open>git rev-parse --short HEAD\<close> (\<open>None\<close> when the command fails), and whether a write to
  the workspace throws (\<open>Some e\<close>) or goes through (\<open>None\<close>).
\<close>

record disk =
  feature_list_json :: stored
  progress_log :: "string option"
  git_head :: "string option"
  write_error :: "thrown option"

section \<open>Strings\<close>

text \<open>
  Strings are lists of 8-bit characters. \<open>js_space\<close> is the white space of
  \<^verbatim>\<open>String.prototype.trim\<close> and of \<^verbatim>\<open>\s\<close> in that range: tab, line feed, vertical tab,
  form feed, carriage return, space and no-break space.
\<close>

definition js_space :: "char \<Rightarrow> bool" where
  "js_space c = (c \<in> set [CHR 0x09, CHR 0x0A, CHR 0x0B, CHR 0x0C, CHR 0x0D, CHR 0x20, CHR 0xA0])"

definition trim :: "string \<Rightarrow> string" where
  "trim s = rev (dropWhile js_space (rev (dropWhile js_space s)))"

section \<open>ContextBuilder (src/core/context-builder.ts)\<close>

text \<open>
  \<^verbatim>\<open>loadFeatureList\<close>: \<^verbatim>\<open>null\<close> when the file does not exist; otherwise the read and the
  parse run inside \<^verbatim>\<open>try\<close>, and the \<^verbatim>\<open>catch\<close> returns \<^verbatim>\<open>null\<close> too. The result type
  has the rejected promise as \<open>Inl\<close>.
\<close>

definition existsSync :: "stored \<Rightarrow> bool" where
  "existsSync s = (s \<noteq> Absent)"

fun readFile_parse :: "stored \<Rightarrow> thrown + FeatureList" where
  "readFile_parse Absent = Inl (Error_obj ''Error'' ''ENOENT: no such file or directory'')"
| "readFile_parse (Unreadable e) = Inl e"
| "readFile_parse (Stored fl) = Inr fl"

definition loadFeatureList :: "disk \<Rightarrow> thrown + FeatureList option" where
  "loadFeatureList d =
     (if \<not> existsSync (feature_list_json d) then Inr None
      else (case readFile_parse (feature_list_json d) of
              Inr fl \<Rightarrow> Inr (Some fl)
            | Inl e \<Rightarrow> Inr None))"

text \<open>\<^verbatim>\<open>saveFeatureList\<close>: one \<^verbatim>\<open>writeFile\<close>, whose failure is not caught here.\<close>

definition saveFeatureList :: "FeatureList \<Rightarrow> disk \<Rightarrow> (thrown + unit) \<times> disk" where
  "saveFeatureList fl d =
     (case write_error d of
        Some e \<Rightarrow> (Inl e, d)
      | None \<Rightarrow> (Inr (), d\<lparr>feature_list_json := Stored fl\<rparr>))"

text \<open>\<^verbatim>\<open>getNextFeature\<close>: \<^verbatim>\<open>featureList.features.find((f) => !f.passes) ?? null\<close>\<close>

definition getNextFeature :: "disk \<Rightarrow> thrown + Feature option" where
  "getNextFeature d =
     (case loadFeatureList d of
        Inl e \<Rightarrow> Inl e
      | Inr None \<Rightarrow> Inr None
      | Inr (Some fl) \<Rightarrow> Inr (find (\<lambda>f. \<not> passes f) (features fl)))"

text \<open>
  \<^verbatim>\<open>getNextFeatureByType(type: string)\<close>:
  \<^verbatim>\<open>find((f) => !f.passes && (f.type === type || (!f.type && type === 'feature')))\<close>.
  A present \<^verbatim>\<open>type\<close> is one of five non-empty literals, so \<^verbatim>\<open>!f.type\<close> holds exactly when the
  field is absent.
\<close>

definition type_matches :: "string \<Rightarrow> Feature \<Rightarrow> bool" where
  "type_matches ty f =
     (map_option type_name (type_f f) = Some ty \<or> (type_f f = None \<and> ty = ''feature''))"

definition getNextFeatureByType :: "string \<Rightarrow> disk \<Rightarrow> thrown + Feature option" where
  "getNextFeatureByType ty d =
     (case loadFeatureList d of
        Inl e \<Rightarrow> Inl e
      | Inr None \<Rightarrow> Inr None
      | Inr (Some fl) \<Rightarrow> Inr (find (\<lambda>f. \<not> passes f \<and> type_matches ty f) (features fl)))"

text \<open>
  \<^verbatim>\<open>appendToProgressLog\<close>: the entry becomes the file when there is none, and is appended
  after an empty line otherwise. Neither write is inside a \<^verbatim>\<open>try\<close>.
\<close>

definition appendToProgressLog :: "string \<Rightarrow> disk \<Rightarrow> (thrown + unit) \<times> disk" where
  "appendToProgressLog entry d =
     (case write_error d of
        Some e \<Rightarrow> (Inl e, d)
      | None \<Rightarrow>
          (Inr (),
           d\<lparr>progress_log :=
               (case progress_log d of
                  None \<Rightarrow> Some entry
                | Some c \<Rightarrow> Some (c @ [CHR 0x0A, CHR 0x0A] @ entry))\<rparr>))"

text \<open>
  \<^verbatim>\<open>buildSessionContext\<close>: the next feature by \<^verbatim>\<open>getNextFeature\<close> (no type filter), or
  \<^verbatim>\<open>null\<close>. The progress log, git log and directory listing it also collects are read-only
  and only feed the prompt text; the context is kept as its feature.
\<close>

definition buildSessionContext :: "disk \<Rightarrow> thrown + Feature option" where
  "buildSessionContext d = getNextFeature d"

section \<open>The agent call (src/core/agent-sdk-client.ts)\<close>

text \<open>
  What a call asks for. The prompt and the system prompt are fixed templates filled from
  the selected feature (coding), or from the feature type, the description and the loaded
  list (adder, atomizer); a request is kept as those inputs, with the turn budget.
\<close>

datatype prompt =
  Coding_prompt Feature
| Adder_prompt FeatureType string FeatureList
| Atomizer_prompt FeatureType string FeatureList

record request =
  prompt :: prompt
  maxTurns :: int

text \<open>
  The messages of the SDK's \<^verbatim>\<open>query\<close> stream that \<^verbatim>\<open>runAgentQuery\<close> looks at: an assistant
  message with its content blocks, a result message of subtype \<^verbatim>\<open>success\<close> with its optional
  \<^verbatim>\<open>result\<close>, a result message of another subtype with its optional \<^verbatim>\<open>errors\<close>, and any
  other message.
\<close>

datatype content_block = Text_block string | Other_block

datatype SDKMessage =
  Assistant "content_block list"
| Result_success "string option"
| Result_error "string list option"
| Other_message

text \<open>
  One run of the external agent: the messages it yields and, when the stream throws
  instead of ending, the thrown value. The agent works on the files of the workspace, so a
  run also gives the disk it leaves behind.
\<close>

record sdk_run =
  messages :: "SDKMessage list"
  sdk_thrown :: "thrown option"

type_synonym sdk = "request \<Rightarrow> disk \<Rightarrow> sdk_run \<times> disk"

text \<open>
  \<^verbatim>\<open>interface AgentQueryResult\<close>, without \<^verbatim>\<open>totalCostUsd\<close> and \<^verbatim>\<open>numTurns\<close>, which no caller
  reads.
\<close>

record AgentQueryResult =
  q_success :: bool
  q_output :: string
  q_error :: "string option"

text \<open>\<^verbatim>\<open>Array.prototype.join\<close> with a separator.\<close>

fun join :: "string \<Rightarrow> string list \<Rightarrow> string" where
  "join sep [] = []"
| "join sep [x] = x"
| "join sep (x # y # ys) = x @ sep @ join sep (y # ys)"

fun block_text :: "content_block \<Rightarrow> string" where
  "block_text (Text_block t) = t"
| "block_text Other_block = []"

text \<open>The body of the \<^verbatim>\<open>for await\<close> loop, on the variables \<^verbatim>\<open>output\<close>, \<^verbatim>\<open>success\<close>, \<^verbatim>\<open>error\<close>.\<close>

fun on_message :: "string \<times> bool \<times> string option \<Rightarrow> SDKMessage \<Rightarrow> string \<times> bool \<times> string option" where
  "on_message (out, suc, err) (Assistant blocks) = (out @ concat (map block_text blocks), suc, err)"
| "on_message (out, suc, err) (Result_success res) =
     ((case res of Some r \<Rightarrow> if r \<noteq> [] then r else out | None \<Rightarrow> out), True, err)"
| "on_message (out, suc, err) (Result_error errs) =
     (out, False, (case errs of Some es \<Rightarrow> Some (join [CHR 0x0A] es) | None \<Rightarrow> err))"
| "on_message (out, suc, err) Other_message = (out, suc, err)"

text \<open>
  \<^verbatim>\<open>runAgentQuery\<close>: the whole body is inside \<^verbatim>\<open>try\<close>; a throw gives an unsuccessful result
  with the output collected so far and the thrown message.
\<close>

type_synonym agent_query = "request \<Rightarrow> disk \<Rightarrow> (thrown + AgentQueryResult) \<times> disk"

definition runAgentQuery :: "sdk \<Rightarrow> agent_query" where
  "runAgentQuery agent req d =
     (case agent req d of
        (run, d') \<Rightarrow>
          (case foldl on_message ([], False, None) (messages run) of
             (out, suc, err) \<Rightarrow>
               (Inr (case sdk_thrown run of
                       None \<Rightarrow> \<lparr>q_success = suc, q_output = out, q_error = err\<rparr>
                     | Some t \<Rightarrow> \<lparr>q_success = False, q_output = out, q_error = Some (thrown_message t)\<rparr>),
                d')))"

section \<open>CodingAgent.runSession (src/agents/coding-agent.ts)\<close>

text \<open>
  The state a session runs in: the disk, and a log of the agent calls made so far, each
  with the disk it started from. The log is not program state; it records the calls so
  that they can be counted.
\<close>

record world =
  disk_of :: disk
  calls :: "(disk \<times> request) list"

text \<open>\<^verbatim>\<open>`[${new Date().toISOString()}] [${feature.id}] ${feature.title} - ...`\<close>\<close>

definition entry :: "string \<Rightarrow> Feature \<Rightarrow> string \<Rightarrow> string" where
  "entry now f outcome = ''['' @ now @ ''] ['' @ id_f f @ ''] '' @ title f @ '' - '' @ outcome"

text \<open>The result of the \<^verbatim>\<open>catch\<close> block.\<close>

definition caught :: "string \<Rightarrow> Feature \<Rightarrow> thrown \<Rightarrow> SessionResult" where
  "caught now f t =
     \<lparr>success = False, featureId = id_f f, commitHash = None,
      error = Some (thrown_message t),
      progressEntry = entry now f (''ERROR: '' @ thrown_string t)\<rparr>"

text \<open>
  Step 4 and 5 of \<^verbatim>\<open>runSession\<close>, after a successful agent result: the list is read again,
  \<^verbatim>\<open>featureList?.features.find((f) => f.id === feature.id)\<close>, and
  \<^verbatim>\<open>updatedFeature?.passes === true\<close>; the commit hash is the trimmed output of git, if any.
\<close>

definition check_complete :: "string \<Rightarrow> Feature \<Rightarrow> disk \<Rightarrow> thrown + SessionResult" where
  "check_complete now f d =
     (case loadFeatureList d of
        Inl t \<Rightarrow> Inl t
      | Inr featureList \<Rightarrow>
          (let updatedFeature =
                 (case featureList of
                    None \<Rightarrow> None
                  | Some fl \<Rightarrow> find (\<lambda>g. id_f g = id_f f) (features fl));
               suc = (case updatedFeature of None \<Rightarrow> False | Some u \<Rightarrow> passes u)
           in Inr \<lparr>success = suc, featureId = id_f f,
                   commitHash = map_option trim (git_head d), error = None,
                   progressEntry = entry now f (if suc then ''COMPLETED'' else ''INCOMPLETE'')\<rparr>))"

text \<open>
  \<^verbatim>\<open>runSession\<close>. \<open>query\<close> is \<^verbatim>\<open>runAgentQuery\<close> as the session sees it (a promise that may
  reject), \<open>now\<close> the time \<^verbatim>\<open>new Date().toISOString()\<close> gives, \<open>mt\<close> the option \<^verbatim>\<open>maxTurns\<close>.
  \<^verbatim>\<open>buildSessionContext\<close> is awaited before the \<^verbatim>\<open>try\<close>; everything after it is inside.
\<close>

definition runSession :: "agent_query \<Rightarrow> string \<Rightarrow> int \<Rightarrow> world \<Rightarrow> (thrown + SessionResult) \<times> world" where
  "runSession query now mt w =
     (case buildSessionContext (disk_of w) of
        Inl t \<Rightarrow> (Inl t, w)
      | Inr None \<Rightarrow>
          (Inr \<lparr>success = False, featureId = [], commitHash = None,
                error = Some ''No pending features found. All features may be complete.'',
                progressEntry = []\<rparr>, w)
      | Inr (Some f) \<Rightarrow>
          (let req = \<lparr>prompt = Coding_prompt f, maxTurns = mt\<rparr> in
           case query req (disk_of w) of
             (result, d') \<Rightarrow>
               (let w' = \<lparr>disk_of = d', calls = calls w @ [(disk_of w, req)]\<rparr> in
                case result of
                  Inl t \<Rightarrow> (Inr (caught now f t), w')
                | Inr res \<Rightarrow>
                    if \<not> q_success res then
                      (Inr \<lparr>success = False, featureId = id_f f, commitHash = None,
                            error = Some (case q_error res of
                                            Some e \<Rightarrow> if e \<noteq> [] then e
                                                      else ''Claude Agent SDK session failed''
                                          | None \<Rightarrow> ''Claude Agent SDK session failed''),
                            progressEntry = entry now f ''ERROR''\<rparr>, w')
                    else
                      (case check_complete now f d' of
                         Inl t \<Rightarrow> (Inr (caught now f t), w')
                       | Inr r \<Rightarrow> (Inr r, w')))))"

section \<open>The loop command (src/cli.ts)\<close>

text \<open>
  \<^verbatim>\<open>featureType ? getNextFeatureByType(featureType) : getNextFeature()\<close>: an absent or empty
  \<^verbatim>\<open>--type\<close> is no filter.
\<close>

definition nextTask :: "string option \<Rightarrow> disk \<Rightarrow> thrown + Feature option" where
  "nextTask featureType d =
     (case featureType of
        None \<Rightarrow> getNextFeature d
      | Some ty \<Rightarrow> if ty \<noteq> [] then getNextFeatureByType ty d else getNextFeature d)"

text \<open>
  The \<^verbatim>\<open>while (session < maxSessions)\<close> loop, from a value of \<^verbatim>\<open>session\<close>: the counter is
  incremented first, the loop breaks when no feature is selected, and otherwise one
  session runs, whatever its result. \<open>query n\<close> and \<open>clock n\<close> are the agent call and the time
  of session \<open>n\<close>; \<open>acc\<close> collects the session results. The value is the final counter with
  the results, or the thrown value if an awaited promise rejects.
\<close>

function loop_from ::
  "(int \<Rightarrow> agent_query) \<Rightarrow> (int \<Rightarrow> string) \<Rightarrow> string option \<Rightarrow> int \<Rightarrow> int \<Rightarrow>
   int \<Rightarrow> SessionResult list \<Rightarrow> world \<Rightarrow> (thrown + int \<times> SessionResult list) \<times> world" where
  "loop_from query clock featureType mt maxSessions session acc w =
     (if session < maxSessions then
        (case nextTask featureType (disk_of w) of
           Inl t \<Rightarrow> (Inl t, w)
         | Inr None \<Rightarrow> (Inr (session + 1, acc), w)
         | Inr (Some f) \<Rightarrow>
             (case runSession (query (session + 1)) (clock (session + 1)) mt w of
                (Inl t, w') \<Rightarrow> (Inl t, w')
              | (Inr r, w') \<Rightarrow>
                  loop_from query clock featureType mt maxSessions (session + 1) (acc @ [r]) w'))
      else (Inr (session, acc), w))"
  by pat_completeness auto
termination
  by (relation "measure (\<lambda>(query, clock, featureType, mt, maxSessions, session, acc, w).
        nat (maxSessions - session))") auto

text \<open>
  The action of \<^verbatim>\<open>loop\<close>: it exits with code 1 without authentication or without
  \<^verbatim>\<open>feature_list.json\<close>, and otherwise runs the loop from \<^verbatim>\<open>session = 0\<close>.
\<close>

datatype loop_outcome = Exit int | Rejected thrown | Done int "SessionResult list"

definition loop_command ::
  "bool \<Rightarrow> (int \<Rightarrow> agent_query) \<Rightarrow> (int \<Rightarrow> string) \<Rightarrow> string option \<Rightarrow> int \<Rightarrow> int \<Rightarrow>
   world \<Rightarrow> loop_outcome \<times> world" where
  "loop_command auth query clock featureType mt maxSessions w =
     (if \<not> auth then (Exit 1, w)
      else if \<not> existsSync (feature_list_json (disk_of w)) then (Exit 1, w)
      else (case loop_from query clock featureType mt maxSessions 0 [] w of
              (Inl t, w') \<Rightarrow> (Rejected t, w')
            | (Inr (n, rs), w') \<Rightarrow> (Done n rs, w')))"

section \<open>JSON values and \<^verbatim>\<open>JSON.parse\<close>\<close>

text \<open>
  A parsed JSON value. A number \<open>JNum m e\<close> stands for the decimal \<open>m * 10 ^ e\<close> its literal
  denotes; an object keeps its members in source order.
\<close>

datatype json =
  JNull
| JBool bool
| JNum int int
| JStr string
| JArr "json list"
| JObj "(string \<times> json) list"

definition char_code :: "char \<Rightarrow> nat" where
  "char_code c = of_char c"

text \<open>The white space of the JSON grammar: space, tab, line feed, carriage return.\<close>

definition json_ws :: "char \<Rightarrow> bool" where
  "json_ws c = (c = CHR 0x20 \<or> c = CHR 0x09 \<or> c = CHR 0x0A \<or> c = CHR 0x0D)"

definition skip_ws :: "string \<Rightarrow> string" where
  "skip_ws s = dropWhile json_ws s"

definition is_digit :: "char \<Rightarrow> bool" where
  "is_digit c = (48 \<le> char_code c \<and> char_code c \<le> 57)"

definition digit_val :: "char \<Rightarrow> int" where
  "digit_val c = int (char_code c) - 48"

definition digits_val :: "string \<Rightarrow> int" where
  "digits_val ds = foldl (\<lambda>n c. 10 * n + digit_val c) 0 ds"

definition hex_val :: "char \<Rightarrow> nat option" where
  "hex_val c =
     (if 48 \<le> char_code c \<and> char_code c \<le> 57 then Some (char_code c - 48)
      else if 97 \<le> char_code c \<and> char_code c \<le> 102 then Some (char_code c - 87)
      else if 65 \<le> char_code c \<and> char_code c \<le> 70 then Some (char_code c - 55)
      else None)"

text \<open>The character after a backslash in a string, other than \<^verbatim>\<open>u\<close>.\<close>

definition escape_char :: "char \<Rightarrow> char option" where
  "escape_char e =
     (if e = CHR 0x22 then Some (CHR 0x22)
      else if e = CHR 0x5C then Some (CHR 0x5C)
      else if e = CHR ''/'' then Some (CHR ''/'')
      else if e = CHR ''b'' then Some (CHR 0x08)
      else if e = CHR ''f'' then Some (CHR 0x0C)
      else if e = CHR ''n'' then Some (CHR 0x0A)
      else if e = CHR ''r'' then Some (CHR 0x0D)
      else if e = CHR ''t'' then Some (CHR 0x09)
      else None)"

text \<open>
  A \<^verbatim>\<open>\uXXXX\<close> escape. Strings here are lists of 8-bit characters, so the escape gives a
  character for a code below 256; a text with a higher escape is outside these strings, and
  the parse gives \<open>None\<close> for it.
\<close>

definition unicode_escape :: "char \<Rightarrow> char \<Rightarrow> char \<Rightarrow> char \<Rightarrow> char option" where
  "unicode_escape a b c d =
     (case (hex_val a, hex_val b, hex_val c, hex_val d) of
        (Some x, Some y, Some z, Some w) \<Rightarrow>
          (if x = 0 \<and> y = 0 then Some (char_of (16 * z + w)) else None)
      | _ \<Rightarrow> None)"

text \<open>The characters of a string after its opening quote, and what follows the closing one.\<close>

fun string_body :: "string \<Rightarrow> (string \<times> string) option" where
  "string_body [] = None"
| "string_body (c # cs) =
     (if c = CHR 0x22 then Some ([], cs)
      else if c = CHR 0x5C then
        (case cs of
           [] \<Rightarrow> None
         | e # cs' \<Rightarrow>
             if e = CHR ''u'' then
               (case cs' of
                  a # b # x # y # rest \<Rightarrow>
                    (case unicode_escape a b x y of
                       None \<Rightarrow> None
                     | Some ch \<Rightarrow> map_option (\<lambda>(s, r). (ch # s, r)) (string_body rest))
                | _ \<Rightarrow> None)
             else
               (case escape_char e of
                  None \<Rightarrow> None
                | Some ch \<Rightarrow> map_option (\<lambda>(s, r). (ch # s, r)) (string_body cs')))
      else if char_code c < 32 then None
      else map_option (\<lambda>(s, r). (c # s, r)) (string_body cs))"

text \<open>
  A number: an optional minus, the integer part (\<^verbatim>\<open>0\<close>, or digits not starting with \<^verbatim>\<open>0\<close>),
  an optional fraction and an optional exponent, each with at least one digit.
\<close>

definition parse_number :: "string \<Rightarrow> (json \<times> string) option" where
  "parse_number s =
     (let neg = (case s of c # _ \<Rightarrow> c = CHR ''-'' | [] \<Rightarrow> False);
          s1 = (if neg then tl s else s);
          ds = takeWhile is_digit s1
      in if ds = [] then None
         else
           (let ip = (if hd ds = CHR ''0'' then ''0'' else ds);
                s2 = drop (length ip) s1;
                has_frac = (case s2 of c # _ \<Rightarrow> c = CHR ''.'' | [] \<Rightarrow> False);
                fd = (if has_frac then takeWhile is_digit (tl s2) else []);
                s3 = (if has_frac then dropWhile is_digit (tl s2) else s2);
                has_exp = (case s3 of c # _ \<Rightarrow> c = CHR ''e'' \<or> c = CHR ''E'' | [] \<Rightarrow> False);
                s4 = (if has_exp then tl s3 else s3);
                eneg = (case s4 of c # _ \<Rightarrow> has_exp \<and> c = CHR ''-'' | [] \<Rightarrow> False);
                epos = (case s4 of c # _ \<Rightarrow> has_exp \<and> c = CHR ''+'' | [] \<Rightarrow> False);
                s5 = (if eneg \<or> epos then tl s4 else s4);
                ed = (if has_exp then takeWhile is_digit s5 else []);
                s6 = (if has_exp then dropWhile is_digit s5 else s5);
                m = digits_val (ip @ fd);
                e = (if eneg then - digits_val ed else digits_val ed) - int (length fd)
            in if has_frac \<and> fd = [] then None
               else if has_exp \<and> ed = [] then None
               else Some (JNum (if neg then - m else m) e, s6)))"

definition parse_literal :: "string \<Rightarrow> json \<Rightarrow> string \<Rightarrow> (json \<times> string) option" where
  "parse_literal w v s = (if take (length w) s = w then Some (v, drop (length w) s) else None)"

text \<open>
  A value, the elements of an array after its first bracket, and the members of an object
  after its first brace, each with the rest of the text. A parse consumes input, so the
  tests \<open>length r < length s\<close> always hold; they are what makes the recursion terminate.
\<close>

function (sequential)
  parse_value :: "string \<Rightarrow> (json \<times> string) option" and
  parse_elements :: "string \<Rightarrow> (json list \<times> string) option" and
  parse_members :: "string \<Rightarrow> ((string \<times> json) list \<times> string) option"
where
  "parse_value s =
     (case skip_ws s of
        [] \<Rightarrow> None
      | c # cs \<Rightarrow>
          if c = CHR ''{'' then
            (case skip_ws cs of
               [] \<Rightarrow> None
             | c' # cs' \<Rightarrow>
                 if c' = CHR ''}'' then Some (JObj [], cs')
                 else map_option (\<lambda>(kvs, r). (JObj kvs, r)) (parse_members cs))
          else if c = CHR ''['' then
            (case skip_ws cs of
               [] \<Rightarrow> None
             | c' # cs' \<Rightarrow>
                 if c' = CHR '']'' then Some (JArr [], cs')
                 else map_option (\<lambda>(vs, r). (JArr vs, r)) (parse_elements cs))
          else if c = CHR 0x22 then map_option (\<lambda>(str, r). (JStr str, r)) (string_body cs)
          else if c = CHR ''-'' \<or> is_digit c then parse_number (c # cs)
          else if c = CHR ''t'' then parse_literal ''true'' (JBool True) (c # cs)
          else if c = CHR ''f'' then parse_literal ''false'' (JBool False) (c # cs)
          else if c = CHR ''n'' then parse_literal ''null'' JNull (c # cs)
          else None)"
| "parse_elements s =
     (case parse_value s of
        None \<Rightarrow> None
      | Some (v, r) \<Rightarrow>
          if \<not> length r < length s then None
          else
            (case skip_ws r of
               [] \<Rightarrow> None
             | c # r' \<Rightarrow>
                 if c = CHR '','' then map_option (\<lambda>(vs, r''). (v # vs, r'')) (parse_elements r')
                 else if c = CHR '']'' then Some ([v], r')
                 else None))"
| "parse_members s =
     (case skip_ws s of
        [] \<Rightarrow> None
      | q # s1 \<Rightarrow>
          if q \<noteq> CHR 0x22 then None
          else
            (case string_body s1 of
               None \<Rightarrow> None
             | Some (k, s2) \<Rightarrow>
                 (case skip_ws s2 of
                    [] \<Rightarrow> None
                  | colon # s3 \<Rightarrow>
                      if colon \<noteq> CHR '':'' \<or> \<not> length s3 < length s then None
                      else
                        (case parse_value s3 of
                           None \<Rightarrow> None
                         | Some (v, r) \<Rightarrow>
                             if \<not> length r < length s3 then None
                             else
                               (case skip_ws r of
                                  [] \<Rightarrow> None
                                | c # r' \<Rightarrow>
                                    if c = CHR '','' then
                                      map_option (\<lambda>(kvs, r''). ((k, v) # kvs, r'')) (parse_members r')
                                    else if c = CHR ''}'' then Some ([(k, v)], r')
                                    else None)))))"
  by pat_completeness auto
termination
proof (relation "measure (\<lambda>x. case x of
          Inl s \<Rightarrow> 2 * length s
        | Inr (Inl s) \<Rightarrow> 2 * length s + 1
        | Inr (Inr s) \<Rightarrow> 2 * length s + 1)", goal_cases)
  case 1
  then show ?case by simp
next
  case (2 s c cs c' cs')
  have "length (skip_ws s) \<le> length s" unfolding skip_ws_def by (rule length_dropWhile_le)
  with 2 show ?case by simp
next
  case (3 s c cs c' cs')
  have "length (skip_ws s) \<le> length s" unfolding skip_ws_def by (rule length_dropWhile_le)
  with 3 show ?case by simp
next
  case (4 s)
  then show ?case by simp
next
  case (5 s x2 v r c r')
  have "length (skip_ws r) \<le> length r" unfolding skip_ws_def by (rule length_dropWhile_le)
  with 5 show ?case by simp
next
  case (6 s q s1 x2 k s2 colon s3)
  then show ?case by simp
next
  case (7 s q s1 x2 k s2 colon s3 x2a v r c r')
  have "length (skip_ws r) \<le> length r" unfolding skip_ws_def by (rule length_dropWhile_le)
  with 7 show ?case by simp
qed

text \<open>\<^verbatim>\<open>JSON.parse\<close>: one value with nothing but white space after it; \<open>None\<close> is the thrown
  \<^verbatim>\<open>SyntaxError\<close>.\<close>

definition JSON_parse :: "string \<Rightarrow> json option" where
  "JSON_parse s =
     (case parse_value s of
        None \<Rightarrow> None
      | Some (v, r) \<Rightarrow> if skip_ws r = [] then Some v else None)"

section \<open>Reading a parsed value as JavaScript does\<close>

text \<open>
  A property read \<^verbatim>\<open>v.k\<close> for one of the names the code reads (\<^verbatim>\<open>id\<close>, \<^verbatim>\<open>title\<close>,
  \<^verbatim>\<open>description\<close>, \<^verbatim>\<open>acceptance_criteria\<close>, \<^verbatim>\<open>passes\<close>, \<^verbatim>\<open>type\<close>, \<^verbatim>\<open>target\<close>) on a value that
  is not \<^verbatim>\<open>null\<close>: the last member of that name for an object, \<^verbatim>\<open>undefined\<close> (\<open>None\<close>)
  otherwise, since no string, number, boolean or array has a property of these names.
\<close>

fun property :: "json \<Rightarrow> string \<Rightarrow> json option" where
  "property (JObj kvs) k = map_of (rev kvs) k"
| "property v k = None"

text \<open>
  Whether the double nearest to \<open>m * 10 ^ e\<close> is not zero: the decimal is not zero and is
  above \<open>2 ^ -1075\<close>, half the smallest positive double.
\<close>

definition num_nonzero :: "int \<Rightarrow> int \<Rightarrow> bool" where
  "num_nonzero m e = (m \<noteq> 0 \<and> (0 \<le> e \<or> 10 ^ nat (- e) < \<bar>m\<bar> * 2 ^ 1075))"

text \<open>JavaScript truthiness of a value or \<^verbatim>\<open>undefined\<close>.\<close>

fun truthy :: "json option \<Rightarrow> bool" where
  "truthy None = False"
| "truthy (Some JNull) = False"
| "truthy (Some (JBool b)) = b"
| "truthy (Some (JNum m e)) = num_nonzero m e"
| "truthy (Some (JStr s)) = (s \<noteq> [])"
| "truthy (Some (JArr vs)) = True"
| "truthy (Some (JObj kvs)) = True"

text \<open>\<^verbatim>\<open>Array.isArray(x) && x.length > 0\<close> and \<^verbatim>\<open>typeof x === 'boolean'\<close>.\<close>

fun nonempty_array :: "json option \<Rightarrow> bool" where
  "nonempty_array (Some (JArr vs)) = (vs \<noteq> [])"
| "nonempty_array x = False"

fun is_boolean :: "json option \<Rightarrow> bool" where
  "is_boolean (Some (JBool b)) = True"
| "is_boolean x = False"

text \<open>\<^verbatim>\<open>typeof v === 'object'\<close>, for a parsed value: \<^verbatim>\<open>null\<close>, arrays and objects.\<close>

fun typeof_object :: "json \<Rightarrow> bool" where
  "typeof_object JNull = True"
| "typeof_object (JArr vs) = True"
| "typeof_object (JObj kvs) = True"
| "typeof_object v = False"

text \<open>The conjunction both \<^verbatim>\<open>validateFeature\<close> methods end with, on a value that is not \<^verbatim>\<open>null\<close>.\<close>

definition feature_checks :: "json \<Rightarrow> bool" where
  "feature_checks v =
     (truthy (property v ''id'') \<and>
      truthy (property v ''title'') \<and>
      truthy (property v ''description'') \<and>
      truthy (property v ''acceptance_criteria'') \<and>
      nonempty_array (property v ''acceptance_criteria'') \<and>
      is_boolean (property v ''passes''))"

text \<open>
  \<^verbatim>\<open>FeatureAdderAgent.validateFeature\<close>: reading \<^verbatim>\<open>feature.id\<close> of \<^verbatim>\<open>null\<close> throws a
  \<^verbatim>\<open>TypeError\<close>.
\<close>

definition adder_validateFeature :: "json \<Rightarrow> thrown + bool" where
  "adder_validateFeature v =
     (if v = JNull then
        Inl (Error_obj ''TypeError'' ''Cannot read properties of null (reading 'id')'')
      else Inr (feature_checks v))"

text \<open>\<^verbatim>\<open>FeatureAtomizerAgent.validateFeature\<close>: \<^verbatim>\<open>feature && typeof feature === 'object' && ...\<close>\<close>

definition atomizer_validateFeature :: "json \<Rightarrow> bool" where
  "atomizer_validateFeature v = (truthy (Some v) \<and> typeof_object v \<and> feature_checks v)"

section \<open>Regular expressions\<close>

text \<open>
  The regular expressions of the two parsers use literal characters, \<^verbatim>\<open>[\s\S]\<close> (\<open>Any\<close>),
  \<^verbatim>\<open>\s\<close>, negated classes, sequence, \<^verbatim>\<open>?\<close>, greedy \<^verbatim>\<open>*\<close>, lazy \<^verbatim>\<open>*?\<close> and one capture
  group.
\<close>

datatype rx =
  Lit char
| Any
| Space
| NotIn "char list"
| Eps
| Seq rx rx
| Opt rx
| Star rx
| Lazy rx
| Group nat rx

text \<open>
  A state of the backtracking matcher: the number of characters left, the text left, and
  the captures so far.
\<close>

type_synonym mstate = "nat \<times> string \<times> (nat \<times> string) list"

fun one_char :: "(char \<Rightarrow> bool) \<Rightarrow> mstate \<Rightarrow> mstate list" where
  "one_char P (n, [], caps) = []"
| "one_char P (n, c # cs, caps) = (if P c then [(n - 1, cs, caps)] else [])"

text \<open>
  All the ways an expression matches from a state, in the order backtracking tries them:
  a greedy star tries one more iteration before stopping, a lazy one stops first. An
  iteration of a star that consumes nothing is not tried again, as in ECMAScript.
\<close>

function rx_run :: "rx \<Rightarrow> mstate \<Rightarrow> mstate list" where
  "rx_run (Lit c) st = one_char (\<lambda>x. x = c) st"
| "rx_run Any st = one_char (\<lambda>x. True) st"
| "rx_run Space st = one_char js_space st"
| "rx_run (NotIn cs) st = one_char (\<lambda>x. x \<notin> set cs) st"
| "rx_run Eps st = [st]"
| "rx_run (Seq a b) st = concat (map (rx_run b) (rx_run a st))"
| "rx_run (Opt a) st = rx_run a st @ [st]"
| "rx_run (Star a) st =
     concat (map (\<lambda>st'. if fst st' < fst st then rx_run (Star a) st' else []) (rx_run a st)) @ [st]"
| "rx_run (Lazy a) st =
     st # concat (map (\<lambda>st'. if fst st' < fst st then rx_run (Lazy a) st' else []) (rx_run a st))"
| "rx_run (Group k a) st =
     map (\<lambda>st'. (fst st', fst (snd st'),
                 (k, take (fst st - fst st') (fst (snd st))) # snd (snd st')))
       (rx_run a st)"
  by pat_completeness auto
termination
  by (relation "measure size <*lex*> measure fst") auto

definition seq :: "rx list \<Rightarrow> rx" where
  "seq rs = foldr Seq rs Eps"

definition str :: "string \<Rightarrow> rx" where
  "str s = seq (map Lit s)"

text \<open>A match: its index, the matched text, and the captured groups.\<close>

record rmatch =
  m_index :: nat
  m_text :: string
  m_groups :: "(nat \<times> string) list"

text \<open>
  \<^verbatim>\<open>String.prototype.match\<close> without the \<^verbatim>\<open>g\<close> flag: the first way of matching at the leftmost
  index that has one. \<open>i\<close> is the index of the text left, \<open>n\<close> its length.
\<close>

fun search_from :: "rx \<Rightarrow> nat \<Rightarrow> nat \<Rightarrow> string \<Rightarrow> rmatch option" where
  "search_from r i n [] =
     (case rx_run r (n, [], []) of
        [] \<Rightarrow> None
      | st # _ \<Rightarrow> Some \<lparr>m_index = i, m_text = [], m_groups = snd (snd st)\<rparr>)"
| "search_from r i n (c # cs) =
     (case rx_run r (n, c # cs, []) of
        [] \<Rightarrow> search_from r (i + 1) (n - 1) cs
      | st # _ \<Rightarrow>
          Some \<lparr>m_index = i, m_text = take (n - fst st) (c # cs), m_groups = snd (snd st)\<rparr>)"

definition js_match :: "rx \<Rightarrow> string \<Rightarrow> rmatch option" where
  "js_match r s = search_from r 0 (length s) s"

text \<open>
  \<^verbatim>\<open>String.prototype.match\<close> with the \<^verbatim>\<open>g\<close> flag: the texts of the successive matches, each
  search starting where the last match ended (one character later after an empty match).
  JavaScript gives \<^verbatim>\<open>null\<close> where this gives the empty list.
\<close>

function match_all :: "rx \<Rightarrow> nat \<Rightarrow> string \<Rightarrow> string list" where
  "match_all r n [] = (if rx_run r (n, [], []) = [] then [] else [Nil])"
| "match_all r n (c # cs) =
     (case rx_run r (n, c # cs, []) of
        [] \<Rightarrow> match_all r (n - 1) cs
      | st # _ \<Rightarrow>
          (let k = n - fst st in
           if k = 0 then [] # match_all r (n - 1) cs
           else take k (c # cs) # match_all r (fst st) (drop k (c # cs))))"
  by pat_completeness auto
termination
  by (relation "measure (\<lambda>(r, n, s). length s)") auto

definition js_match_all :: "rx \<Rightarrow> string \<Rightarrow> string list" where
  "js_match_all r s = match_all r (length s) s"

section \<open>String operations of the parsers\<close>

text \<open>\<^verbatim>\<open>String.prototype.indexOf\<close>: the first index at which the needle occurs.\<close>

fun index_from :: "nat \<Rightarrow> string \<Rightarrow> string \<Rightarrow> nat option" where
  "index_from i needle [] = (if needle = [] then Some i else None)"
| "index_from i needle (c # cs) =
     (if take (length needle) (c # cs) = needle then Some i else index_from (i + 1) needle cs)"

definition indexOf :: "string \<Rightarrow> string \<Rightarrow> nat option" where
  "indexOf s needle = index_from 0 needle s"

text \<open>\<^verbatim>\<open>s.substring(a, b)\<close> for \<open>a \<le> b\<close>.\<close>

definition substring :: "string \<Rightarrow> nat \<Rightarrow> nat \<Rightarrow> string" where
  "substring s a b = take (b - a) (drop a s)"

text \<open>\<^verbatim>\<open>s.split('\n')\<close>\<close>

fun split_lines :: "string \<Rightarrow> string list" where
  "split_lines [] = [Nil]"
| "split_lines (c # cs) =
     (if c = CHR 0x0A then [] # split_lines cs
      else (case split_lines cs of
              [] \<Rightarrow> [c] # []
            | l # ls \<Rightarrow> (c # l) # ls))"

text \<open>
  The counting loop of strategy 3: from index \<open>i\<close> with the count \<open>n\<close>, the index after the
  closing character that brings the count back to zero, if there is one.
\<close>

fun scan_close :: "char \<Rightarrow> char \<Rightarrow> int \<Rightarrow> nat \<Rightarrow> string \<Rightarrow> nat option" where
  "scan_close opn cls n i [] = None"
| "scan_close opn cls n i (c # cs) =
     (let n1 = (if c = opn then n + 1 else n) in
      if c = cls then
        (if n1 - 1 = 0 then Some (i + 1) else scan_close opn cls (n1 - 1) (i + 1) cs)
      else scan_close opn cls n1 (i + 1) cs)"

text \<open>The inner loop of strategy 4: the brace count after a line.\<close>

definition count_braces :: "int \<Rightarrow> string \<Rightarrow> int" where
  "count_braces n line =
     foldl (\<lambda>k c. if c = CHR ''{'' then k + 1 else if c = CHR ''}'' then k - 1 else k) n line"

text \<open>
  The outer loop of strategy 4, at line \<open>i\<close> with \<^verbatim>\<open>braceCount\<close> and \<^verbatim>\<open>jsonStart\<close>
  (\<open>None\<close> for \<^verbatim>\<open>-1\<close>): the pair of \<^verbatim>\<open>jsonStart\<close> and \<^verbatim>\<open>jsonEnd\<close> when the loop breaks. An
  empty line is skipped by \<^verbatim>\<open>continue\<close>.
\<close>

fun scan_lines :: "nat \<Rightarrow> int \<Rightarrow> nat option \<Rightarrow> string list \<Rightarrow> (nat \<times> nat) option" where
  "scan_lines i braceCount jsonStart [] = None"
| "scan_lines i braceCount jsonStart (line # rest) =
     (if line = [] then scan_lines (i + 1) braceCount jsonStart rest
      else
        (let starts = (jsonStart = None \<and> take 1 (trim line) = ''{'');
             jsonStart' = (if starts then Some i else jsonStart);
             braceCount' = (if starts then 0 else braceCount)
         in case jsonStart' of
              None \<Rightarrow> scan_lines (i + 1) braceCount' jsonStart' rest
            | Some start \<Rightarrow>
                (let braceCount'' = count_braces braceCount' line in
                 if braceCount'' = 0 then Some (start, i)
                 else scan_lines (i + 1) braceCount'' jsonStart' rest)))"

section \<open>FeatureAdderAgent.parseFeature\<close>

text \<open>\<^verbatim>\<open>/```(?:json)?\s*([\s\S]*?)```/\<close>\<close>

definition fence_rx :: rx where
  "fence_rx = seq [str ''```'', Opt (str ''json''), Star Space, Group 1 (Lazy Any), str ''```'']"

text \<open>\<^verbatim>\<open>/\{[^}]*"id"\s*:\s*"[^"]*"[^}]*"title"\s*:\s*"[^"]*"[\s\S]*?\}/\<close>\<close>

definition feature_rx :: rx where
  "feature_rx =
     seq [Lit CHR ''{'', Star (NotIn ''}''),
          Lit CHR 0x22, str ''id'', Lit CHR 0x22, Star Space, Lit CHR '':'', Star Space,
          Lit CHR 0x22, Star (NotIn [CHR 0x22]), Lit CHR 0x22,
          Star (NotIn ''}''),
          Lit CHR 0x22, str ''title'', Lit CHR 0x22, Star Space, Lit CHR '':'', Star Space,
          Lit CHR 0x22, Star (NotIn [CHR 0x22]), Lit CHR 0x22,
          Lazy Any, Lit CHR ''}'']"

text \<open>\<^verbatim>\<open>/\{[^{}]*(?:\{[^{}]*\}[^{}]*)*\}/g\<close>\<close>

definition all_objects_rx :: rx where
  "all_objects_rx =
     seq [Lit CHR ''{'', Star (NotIn ''{}''),
          Star (seq [Lit CHR ''{'', Star (NotIn ''{}''), Lit CHR ''}'', Star (NotIn ''{}'')]),
          Lit CHR ''}'']"

text \<open>
  The block every strategy ends with:
  \<^verbatim>\<open>try { const feature = JSON.parse(s); if (this.validateFeature(feature)) return feature } catch {}\<close>.
  \<open>None\<close> means the strategy goes on to the next one.
\<close>

definition try_feature :: "string \<Rightarrow> json option" where
  "try_feature s =
     (case JSON_parse s of
        None \<Rightarrow> None
      | Some v \<Rightarrow>
          (case adder_validateFeature v of
             Inl t \<Rightarrow> None
           | Inr ok \<Rightarrow> if ok then Some v else None))"

text \<open>Strategy 2: the first fenced block, when its content is not empty.\<close>

definition feature_strategy2 :: "string \<Rightarrow> json option" where
  "feature_strategy2 output =
     (case js_match fence_rx output of
        None \<Rightarrow> None
      | Some m \<Rightarrow>
          (case map_of (m_groups m) 1 of
             None \<Rightarrow> None
           | Some g \<Rightarrow> if g \<noteq> [] then try_feature (trim g) else None))"

text \<open>
  Strategy 3: from the first match of \<open>feature_rx\<close>, located again by \<^verbatim>\<open>indexOf\<close> (which finds
  it, the match being part of the output), to the brace that closes its first brace;
  \<^verbatim>\<open>endIndex\<close> stays at \<^verbatim>\<open>startIndex\<close> when no brace closes it.
\<close>

definition feature_strategy3 :: "string \<Rightarrow> json option" where
  "feature_strategy3 output =
     (case js_match feature_rx output of
        None \<Rightarrow> None
      | Some m \<Rightarrow>
          (case indexOf output (m_text m) of
             None \<Rightarrow> None
           | Some startIndex \<Rightarrow>
               (let endIndex =
                      (case scan_close CHR ''{'' CHR ''}'' 0 startIndex (drop startIndex output) of
                         None \<Rightarrow> startIndex
                       | Some e \<Rightarrow> e)
                in try_feature (substring output startIndex endIndex))))"

text \<open>Strategy 4: the lines from the first one that starts with a brace to the one where the
  count of braces is back at zero.\<close>

definition feature_strategy4 :: "string \<Rightarrow> json option" where
  "feature_strategy4 output =
     (let lines = split_lines output in
      case scan_lines 0 0 None lines of
        None \<Rightarrow> None
      | Some (jsonStart, jsonEnd) \<Rightarrow>
          try_feature (join [CHR 0x0A] (take (jsonEnd + 1 - jsonStart) (drop jsonStart lines))))"

text \<open>Strategy 5: the first match of \<open>all_objects_rx\<close> that parses and validates.\<close>

fun first_feature :: "string list \<Rightarrow> json option" where
  "first_feature [] = None"
| "first_feature (m # ms) = (case try_feature m of Some v \<Rightarrow> Some v | None \<Rightarrow> first_feature ms)"

definition feature_strategy5 :: "string \<Rightarrow> json option" where
  "feature_strategy5 output = first_feature (js_match_all all_objects_rx output)"

text \<open>\<^verbatim>\<open>parseFeature\<close>: the strategies in order, \<^verbatim>\<open>null\<close> when all fail.\<close>

definition parseFeature :: "string \<Rightarrow> json option" where
  "parseFeature output =
     (case try_feature (trim output) of
        Some v \<Rightarrow> Some v
      | None \<Rightarrow>
          (case feature_strategy2 output of
             Some v \<Rightarrow> Some v
           | None \<Rightarrow>
               (case feature_strategy3 output of
                  Some v \<Rightarrow> Some v
                | None \<Rightarrow>
                    (case feature_strategy4 output of
                       Some v \<Rightarrow> Some v
                     | None \<Rightarrow> feature_strategy5 output))))"

section \<open>FeatureAtomizerAgent.parseFeatures\<close>

text \<open>\<^verbatim>\<open>/```(?:json)?\s*(\[[\s\S]*?\])\s*```/\<close>\<close>

definition array_fence_rx :: rx where
  "array_fence_rx =
     seq [str ''```'', Opt (str ''json''), Star Space,
          Group 1 (seq [Lit CHR ''['', Lazy Any, Lit CHR '']'']), Star Space, str ''```'']"

text \<open>\<^verbatim>\<open>/\[\s*\{[\s\S]*?"id"\s*:[\s\S]*?\}\s*(?:,\s*\{[\s\S]*?"id"\s*:[\s\S]*?\}\s*)*\]/\<close>\<close>

definition array_rx :: rx where
  "array_rx =
     seq [Lit CHR ''['', Star Space,
          Lit CHR ''{'', Lazy Any, Lit CHR 0x22, str ''id'', Lit CHR 0x22, Star Space, Lit CHR '':'',
          Lazy Any, Lit CHR ''}'', Star Space,
          Star (seq [Lit CHR '','', Star Space,
                     Lit CHR ''{'', Lazy Any, Lit CHR 0x22, str ''id'', Lit CHR 0x22, Star Space,
                     Lit CHR '':'', Lazy Any, Lit CHR ''}'', Star Space]),
          Lit CHR '']'']"

text \<open>
  \<^verbatim>\<open>try { const features = JSON.parse(s); if (Array.isArray(features) && features.every((f) => this.validateFeature(f))) return features } catch {}\<close>
\<close>

definition try_features :: "string \<Rightarrow> json list option" where
  "try_features s =
     (case JSON_parse s of
        Some (JArr vs) \<Rightarrow> if list_all atomizer_validateFeature vs then Some vs else None
      | _ \<Rightarrow> None)"

definition features_strategy2 :: "string \<Rightarrow> json list option" where
  "features_strategy2 output =
     (case js_match array_fence_rx output of
        None \<Rightarrow> None
      | Some m \<Rightarrow>
          (case map_of (m_groups m) 1 of
             None \<Rightarrow> None
           | Some g \<Rightarrow> if g \<noteq> [] then try_features (trim g) else None))"

text \<open>Strategy 3: from the first bracket to the bracket that closes it, if one does.\<close>

definition features_strategy3 :: "string \<Rightarrow> json list option" where
  "features_strategy3 output =
     (case indexOf output ''['' of
        None \<Rightarrow> None
      | Some arrayStart \<Rightarrow>
          (case scan_close CHR ''['' CHR '']'' 0 arrayStart (drop arrayStart output) of
             None \<Rightarrow> None
           | Some arrayEnd \<Rightarrow> try_features (substring output arrayStart arrayEnd)))"

definition features_strategy4 :: "string \<Rightarrow> json list option" where
  "features_strategy4 output =
     (case js_match array_rx output of
        None \<Rightarrow> None
      | Some m \<Rightarrow> try_features (m_text m))"

text \<open>\<^verbatim>\<open>parseFeatures\<close>: the strategies in order, \<^verbatim>\<open>null\<close> when all fail.\<close>

definition parseFeatures :: "string \<Rightarrow> json list option" where
  "parseFeatures output =
     (case try_features (trim output) of
        Some vs \<Rightarrow> Some vs
      | None \<Rightarrow>
          (case features_strategy2 output of
             Some vs \<Rightarrow> Some vs
           | None \<Rightarrow>
               (case features_strategy3 output of
                  Some vs \<Rightarrow> Some vs
                | None \<Rightarrow> features_strategy4 output)))"

section \<open>From a validated value to a \<^verbatim>\<open>Feature\<close>\<close>

fun target_name :: "TargetType \<Rightarrow> string" where
  "target_name T_web = ''web''"
| "target_name T_mobile = ''mobile''"
| "target_name T_shared = ''shared''"
| "target_name T_full = ''full''"
| "target_name T_backend = ''backend''"
| "target_name T_api = ''api''"

definition type_of_name :: "string \<Rightarrow> FeatureType option" where
  "type_of_name s =
     find (\<lambda>t. type_name t = s) [T_feature, T_refactoring, T_bugfix, T_improvement, T_docs]"

definition target_of_name :: "string \<Rightarrow> TargetType option" where
  "target_of_name s =
     find (\<lambda>t. target_name t = s) [T_web, T_mobile, T_shared, T_full, T_backend, T_api]"

fun as_string :: "json option \<Rightarrow> string option" where
  "as_string (Some (JStr s)) = Some s"
| "as_string x = None"

fun as_boolean :: "json option \<Rightarrow> bool option" where
  "as_boolean (Some (JBool b)) = Some b"
| "as_boolean x = None"

fun as_strings :: "json option \<Rightarrow> string list option" where
  "as_strings (Some (JArr vs)) = those (map (\<lambda>v. as_string (Some v)) vs)"
| "as_strings x = None"

text \<open>An optional field of a closed set of names: absent, or a string naming a member.\<close>

fun as_optional :: "(string \<Rightarrow> 'a option) \<Rightarrow> json option \<Rightarrow> 'a option option" where
  "as_optional f None = Some None"
| "as_optional f (Some (JStr s)) = map_option Some (f s)"
| "as_optional f (Some v) = None"

text \<open>
  The cast \<^verbatim>\<open>feature as Feature\<close> checks nothing at run time. Here a value becomes a
  \<open>Feature\<close> when every field has the type the interface declares (other members are
  dropped). A validated value that does not conform, such as one with a numeric \<^verbatim>\<open>title\<close>,
  is stored by the source as it is; the typed list cannot hold it, and the result is \<open>None\<close>.
\<close>

definition as_Feature :: "json \<Rightarrow> Feature option" where
  "as_Feature v =
     (case as_string (property v ''id'') of None \<Rightarrow> None | Some i \<Rightarrow>
      case as_string (property v ''title'') of None \<Rightarrow> None | Some t \<Rightarrow>
      case as_string (property v ''description'') of None \<Rightarrow> None | Some d \<Rightarrow>
      case as_strings (property v ''acceptance_criteria'') of None \<Rightarrow> None | Some ac \<Rightarrow>
      case as_boolean (property v ''passes'') of None \<Rightarrow> None | Some p \<Rightarrow>
      case as_optional type_of_name (property v ''type'') of None \<Rightarrow> None | Some ty \<Rightarrow>
      case as_optional target_of_name (property v ''target'') of None \<Rightarrow> None | Some tg \<Rightarrow>
        Some \<lparr>id_f = i, title = t, description = d, acceptance_criteria = ac, passes = p,
              type_f = ty, target = tg\<rparr>)"

section \<open>FeatureAdderAgent.addFeature\<close>

text \<open>\<^verbatim>\<open>interface FeatureAdderResult\<close>; the feature is the parsed value.\<close>

record FeatureAdderResult =
  a_success :: bool
  a_feature :: "json option"
  a_error :: "string option"

definition adder_failure :: "string \<Rightarrow> FeatureAdderResult" where
  "adder_failure e = \<lparr>a_success = False, a_feature = None, a_error = Some e\<rparr>"

text \<open>\<^verbatim>\<open>f.id === feature.id\<close> for a stored feature and a parsed value.\<close>

definition same_id :: "json \<Rightarrow> Feature \<Rightarrow> bool" where
  "same_id v f = (property v ''id'' = Some (JStr (id_f f)))"

text \<open>
  \<^verbatim>\<open>addFeature\<close>, for the options \<^verbatim>\<open>featureType\<close> and \<^verbatim>\<open>description\<close>; \<open>debugPath\<close> is the path
  of the debug file in the workspace, which the method writes (inside its own \<^verbatim>\<open>try\<close>) and
  which is not part of the disk modelled here. The whole body is inside \<^verbatim>\<open>try\<close>; the
  \<^verbatim>\<open>catch\<close> gives a failure with the thrown message. The value is \<open>None\<close> only where
  \<open>as_Feature\<close> is.
\<close>

definition addFeature ::
  "agent_query \<Rightarrow> string \<Rightarrow> FeatureType \<Rightarrow> string \<Rightarrow> world \<Rightarrow> (FeatureAdderResult \<times> world) option" where
  "addFeature query debugPath featureType descr w =
     (case loadFeatureList (disk_of w) of
        Inl t \<Rightarrow> Some (adder_failure (thrown_message t), w)
      | Inr None \<Rightarrow>
          Some (adder_failure ''Could not load feature_list.json. Is this a valid project?'', w)
      | Inr (Some featureList) \<Rightarrow>
          (let req = \<lparr>prompt = Adder_prompt featureType descr featureList, maxTurns = 15\<rparr> in
           case query req (disk_of w) of
             (result, d') \<Rightarrow>
               (let w' = \<lparr>disk_of = d', calls = calls w @ [(disk_of w, req)]\<rparr> in
                case result of
                  Inl t \<Rightarrow> Some (adder_failure (thrown_message t), w')
                | Inr res \<Rightarrow>
                    if \<not> q_success res \<or> q_output res = [] then
                      Some (adder_failure
                              (''Failed to generate feature. Error: '' @
                               (case q_error res of
                                  Some e \<Rightarrow> if e \<noteq> [] then e else ''unknown''
                                | None \<Rightarrow> ''unknown'') @
                               ''. Check '' @ debugPath), w')
                    else
                      (case parseFeature (q_output res) of
                         None \<Rightarrow>
                           Some (adder_failure
                                   (''Could not parse feature from AI response. Output saved to '' @
                                    debugPath @ '' for debugging.''), w')
                       | Some feature \<Rightarrow>
                           (case adder_validateFeature feature of
                              Inl t \<Rightarrow> Some (adder_failure (thrown_message t), w')
                            | Inr ok \<Rightarrow>
                                if \<not> ok then
                                  Some (adder_failure ''Generated feature is invalid or incomplete'', w')
                                else
                                  (case find (same_id feature) (features featureList) of
                                     Some f \<Rightarrow>
                                       Some (adder_failure
                                               (''Feature ID '' @ id_f f @
                                                '' already exists. Please try again.''), w')
                                   | None \<Rightarrow>
                                       (case as_Feature feature of
                                          None \<Rightarrow> None
                                        | Some f \<Rightarrow>
                                            (case saveFeatureList
                                                    (featureList\<lparr>features := features featureList @ [f]\<rparr>) d' of
                                               (Inl t, d'') \<Rightarrow>
                                                 Some (adder_failure (thrown_message t),
                                                       w'\<lparr>disk_of := d''\<rparr>)
                                             | (Inr u, d'') \<Rightarrow>
                                                 Some (\<lparr>a_success = True, a_feature = Some feature,
                                                        a_error = None\<rparr>,
                                                       w'\<lparr>disk_of := d''\<rparr>)))))))))"

section \<open>FeatureAtomizerAgent.atomizeFeature\<close>

text \<open>\<^verbatim>\<open>interface FeatureAtomizerResult\<close>\<close>

record FeatureAtomizerResult =
  z_success :: bool
  z_features :: "json list option"
  z_error :: "string option"

definition atomizer_failure :: "string \<Rightarrow> FeatureAtomizerResult" where
  "atomizer_failure e = \<lparr>z_success = False, z_features = None, z_error = Some e\<rparr>"

text \<open>A natural number in decimal, as a template literal prints it.\<close>

fun decimal :: "nat \<Rightarrow> string" where
  "decimal n =
     (if n < 10 then [char_of (48 + n)] else decimal (n div 10) @ [char_of (48 + n mod 10)])"

text \<open>\<^verbatim>\<open>`${f.id}`\<close> for a duplicate, whose id is a string.\<close>

definition id_text :: "json \<Rightarrow> string" where
  "id_text v = (case property v ''id'' of Some (JStr s) \<Rightarrow> s | _ \<Rightarrow> [])"

text \<open>
  \<^verbatim>\<open>atomizeFeature\<close>: as \<^verbatim>\<open>addFeature\<close>, with \<^verbatim>\<open>parseFeatures\<close>, a check of every feature, the
  duplicates \<^verbatim>\<open>features.filter((f) => existingIds.has(f.id))\<close>, and one save of the list with
  all features appended.
\<close>

definition atomizeFeature ::
  "agent_query \<Rightarrow> string \<Rightarrow> FeatureType \<Rightarrow> string \<Rightarrow> world \<Rightarrow>
   (FeatureAtomizerResult \<times> world) option" where
  "atomizeFeature query debugPath featureType descr w =
     (case loadFeatureList (disk_of w) of
        Inl t \<Rightarrow> Some (atomizer_failure (thrown_message t), w)
      | Inr None \<Rightarrow>
          Some (atomizer_failure ''Could not load feature_list.json. Is this a valid project?'', w)
      | Inr (Some featureList) \<Rightarrow>
          (let req = \<lparr>prompt = Atomizer_prompt featureType descr featureList, maxTurns = 20\<rparr> in
           case query req (disk_of w) of
             (result, d') \<Rightarrow>
               (let w' = \<lparr>disk_of = d', calls = calls w @ [(disk_of w, req)]\<rparr> in
                case result of
                  Inl t \<Rightarrow> Some (atomizer_failure (thrown_message t), w')
                | Inr res \<Rightarrow>
                    if \<not> q_success res \<or> q_output res = [] then
                      Some (atomizer_failure
                              (''Failed to atomize feature. Error: '' @
                               (case q_error res of
                                  Some e \<Rightarrow> if e \<noteq> [] then e else ''unknown''
                                | None \<Rightarrow> ''unknown'') @
                               ''. Check '' @ debugPath), w')
                    else
                      (case parseFeatures (q_output res) of
                         None \<Rightarrow>
                           Some (atomizer_failure
                                   (''Could not parse features from AI response. Output saved to '' @
                                    debugPath @ '' for debugging.''), w')
                       | Some fs \<Rightarrow>
                           if fs = [] then
                             Some (atomizer_failure
                                     (''Could not parse features from AI response. Output saved to '' @
                                      debugPath @ '' for debugging.''), w')
                           else
                             (let invalidFeatures = filter (\<lambda>f. \<not> atomizer_validateFeature f) fs in
                              if invalidFeatures \<noteq> [] then
                                Some (atomizer_failure
                                        (decimal (length invalidFeatures) @
                                         '' invalid feature(s) generated. Check structure.''), w')
                              else
                                (let duplicates =
                                       filter (\<lambda>v. \<exists>f \<in> set (features featureList). same_id v f) fs in
                                 if duplicates \<noteq> [] then
                                   Some (atomizer_failure
                                           (''Duplicate feature IDs found: '' @
                                            join '', '' (map id_text duplicates)), w')
                                 else
                                   (case those (map as_Feature fs) of
                                      None \<Rightarrow> None
                                    | Some new \<Rightarrow>
                                        (case saveFeatureList
                                                (featureList\<lparr>features := features featureList @ new\<rparr>) d' of
                                           (Inl t, d'') \<Rightarrow>
                                             Some (atomizer_failure (thrown_message t),
                                                   w'\<lparr>disk_of := d''\<rparr>)
                                         | (Inr u, d'') \<Rightarrow>
                                             Some (\<lparr>z_success = True, z_features = Some fs,
                                                    z_error = None\<rparr>,
                                                   w'\<lparr>disk_of := d''\<rparr>)))))))))"

section \<open>Properties and example data\<close>

text \<open>
  What re-reading the list from the disk says about a task: the list loads, a feature
  with the given id is found, and the first such feature has \<^verbatim>\<open>passes\<close> true.
\<close>

definition task_done :: "disk \<Rightarrow> string \<Rightarrow> bool" where
  "task_done d i =
     (case loadFeatureList d of
        Inr (Some fl) \<Rightarrow>
          (case find (\<lambda>g. id_f g = i) (features fl) of Some u \<Rightarrow> passes u | None \<Rightarrow> False)
      | _ \<Rightarrow> False)"

text \<open>The category of a task, an absent \<^verbatim>\<open>type\<close> being the default category.\<close>

definition category_of :: "Feature \<Rightarrow> string" where
  "category_of f = (case type_f f of None \<Rightarrow> ''feature'' | Some t \<Rightarrow> type_name t)"

text \<open>A task is eligible for a filter: not complete, and of the category when one is given.\<close>

definition eligible :: "string option \<Rightarrow> Feature \<Rightarrow> bool" where
  "eligible filt f =
     (\<not> passes f \<and> (case filt of None \<Rightarrow> True | Some ty \<Rightarrow> category_of f = ty))"

text \<open>
  \<open>r\<close> is the earliest element of \<open>xs\<close> that satisfies \<open>P\<close>: none satisfies it, or \<open>r\<close> stands at
  an index with no satisfying element before it.
\<close>

definition earliest :: "('a \<Rightarrow> bool) \<Rightarrow> 'a list \<Rightarrow> 'a option \<Rightarrow> bool" where
  "earliest P xs r =
     (case r of
        None \<Rightarrow> (\<forall>x \<in> set xs. \<not> P x)
      | Some x \<Rightarrow> (\<exists>i < length xs. xs ! i = x \<and> P x \<and> (\<forall>j < i. \<not> P (xs ! j))))"

text \<open>A disk whose \<^verbatim>\<open>feature_list.json\<close> holds the list \<open>fl\<close> with the features \<open>fs\<close>.\<close>

definition with_features :: "disk \<Rightarrow> FeatureList \<Rightarrow> Feature list \<Rightarrow> disk" where
  "with_features d fl fs = d\<lparr>feature_list_json := Stored (fl\<lparr>features := fs\<rparr>)\<rparr>"

text \<open>The agent call failed: it threw, or its result is unsuccessful.\<close>

definition agent_failed :: "thrown + AgentQueryResult \<Rightarrow> bool" where
  "agent_failed result = (case result of Inl t \<Rightarrow> True | Inr res \<Rightarrow> \<not> q_success res)"

text \<open>
  The error of a failed agent call: the thrown message, or the result's error text; a
  result with no error text, or an empty one, has the fixed message of \<^verbatim>\<open>runSession\<close>.
\<close>

definition underlying_error :: "thrown + AgentQueryResult \<Rightarrow> string" where
  "underlying_error result =
     (case result of
        Inl t \<Rightarrow> thrown_message t
      | Inr res \<Rightarrow>
          (case q_error res of
             Some e \<Rightarrow> if e \<noteq> [] then e else ''Claude Agent SDK session failed''
           | None \<Rightarrow> ''Claude Agent SDK session failed''))"

text \<open>
  The outcome a session has to record, from what the agent call gave and whether re-reading
  the list afterwards shows the task complete: an error with the thrown value when the call
  threw, an error when its result is unsuccessful, and otherwise completed or incomplete.
\<close>

definition outcome_word :: "thrown + AgentQueryResult \<Rightarrow> bool \<Rightarrow> string" where
  "outcome_word result complete =
     (case result of
        Inl t \<Rightarrow> ''ERROR: '' @ thrown_string t
      | Inr res \<Rightarrow>
          if \<not> q_success res then ''ERROR''
          else if complete then ''COMPLETED''
          else ''INCOMPLETE'')"

text \<open>Appending entries to the log one after the other, by \<^verbatim>\<open>appendToProgressLog\<close>.\<close>

definition append_all :: "string list \<Rightarrow> disk \<Rightarrow> disk" where
  "append_all es d = foldl (\<lambda>d e. snd (appendToProgressLog e d)) d es"

text \<open>The id of the feature a request is about.\<close>

fun prompt_id :: "prompt \<Rightarrow> string" where
  "prompt_id (Coding_prompt f) = id_f f"
| "prompt_id (Adder_prompt t s fl) = []"
| "prompt_id (Atomizer_prompt t s fl) = []"

text \<open>The filter the loop applies: an absent or empty \<^verbatim>\<open>--type\<close> is no filter.\<close>

definition active_filter :: "string option \<Rightarrow> string option" where
  "active_filter ty = (case ty of None \<Rightarrow> None | Some t \<Rightarrow> if t = [] then None else Some t)"

text \<open>The tasks a disk holds: those of its list, none when there is no readable list.\<close>

definition stored_features :: "disk \<Rightarrow> Feature list" where
  "stored_features d = (case feature_list_json d of Stored fl \<Rightarrow> features fl | _ \<Rightarrow> [])"

text \<open>
  A logged agent call of the loop is in order: the disk it started from holds an earliest
  task eligible for the loop's filter, and the call asks, with the turn budget, for the
  earliest incomplete task of that disk, of whatever category.
\<close>

definition call_ok :: "string option \<Rightarrow> int \<Rightarrow> disk \<times> request \<Rightarrow> bool" where
  "call_ok ty mt c =
     (case c of (d, req) \<Rightarrow>
        (\<exists>g f. earliest (eligible (active_filter ty)) (stored_features d) (Some g) \<and>
               earliest (eligible None) (stored_features d) (Some f) \<and>
               req = \<lparr>prompt = Coding_prompt f, maxTurns = mt\<rparr>))"

text \<open>
  The calls \<open>cs\<close> lead from the disk \<open>d\<close> to the disk \<open>d'\<close>, the first being the call of session
  \<open>k + 1\<close>: each call starts from the disk the one before it left, and nothing else changes
  the disk.
\<close>

fun chained :: "(int \<Rightarrow> agent_query) \<Rightarrow> int \<Rightarrow> disk \<Rightarrow> (disk \<times> request) list \<Rightarrow> disk \<Rightarrow> bool" where
  "chained query k d [] d' = (d' = d)"
| "chained query k d (c # cs) d' =
     (fst c = d \<and> chained query (k + 1) (snd (query (k + 1) (snd c) d)) cs d')"

text \<open>No task of the disk is eligible for the loop's filter.\<close>

definition none_eligible :: "string option \<Rightarrow> disk \<Rightarrow> bool" where
  "none_eligible ty d = (\<forall>f \<in> set (stored_features d). \<not> eligible (active_filter ty) f)"

subsection \<open>Example features, disks and agents\<close>

definition F000 :: Feature where
  "F000 = \<lparr>id_f = ''F000'', title = ''Setup'', description = ''Project setup'',
           acceptance_criteria = [''Project builds''], passes = True,
           type_f = None, target = None\<rparr>"

definition F001 :: Feature where
  "F001 = \<lparr>id_f = ''F001'', title = ''Login'', description = ''Add login'',
           acceptance_criteria = [''User can log in''], passes = False,
           type_f = None, target = None\<rparr>"

definition F002 :: Feature where
  "F002 = \<lparr>id_f = ''F002'', title = ''Logout'', description = ''Add logout'',
           acceptance_criteria = [''User can log out''], passes = False,
           type_f = Some T_bugfix, target = None\<rparr>"

definition F003 :: Feature where
  "F003 = \<lparr>id_f = ''F003'', title = ''Profile'', description = ''Add profile page'',
           acceptance_criteria = [''User sees a profile''], passes = False,
           type_f = Some T_feature, target = Some T_web\<rparr>"

definition demo_list :: FeatureList where
  "demo_list = \<lparr>project_name = ''demo'', list_description = ''demo project'',
                tech_stack = None, features = []\<rparr>"

definition disk_with :: "Feature list \<Rightarrow> disk" where
  "disk_with fs =
     \<lparr>feature_list_json = Stored (demo_list\<lparr>features := fs\<rparr>),
      progress_log = Some [], git_head = None, write_error = None\<rparr>"

text \<open>What the agent is told to do when it completes a feature: set its \<^verbatim>\<open>passes\<close> on disk.\<close>

definition mark_passes :: "string \<Rightarrow> disk \<Rightarrow> disk" where
  "mark_passes i d =
     (case feature_list_json d of
        Stored fl \<Rightarrow>
          d\<lparr>feature_list_json :=
              Stored (fl\<lparr>features :=
                map (\<lambda>g. if id_f g = i then g\<lparr>passes := True\<rparr> else g) (features fl)\<rparr>)\<rparr>
      | _ \<Rightarrow> d)"

text \<open>An agent that completes the feature on disk and then ends with an error result.\<close>

definition agent_flips_then_fails :: sdk where
  "agent_flips_then_fails req d =
     (\<lparr>messages = [Assistant [Text_block ''done''], Result_error (Some [''max turns reached''])],
       sdk_thrown = None\<rparr>,
      mark_passes (prompt_id (prompt req)) d)"

text \<open>An agent that reports success and changes nothing.\<close>

definition agent_claims_success :: sdk where
  "agent_claims_success req d =
     (\<lparr>messages = [Assistant [Text_block ''All done!''], Result_success (Some ''Feature complete'')],
       sdk_thrown = None\<rparr>, d)"

text \<open>An agent that completes the feature on disk and reports success.\<close>

definition agent_completes :: sdk where
  "agent_completes req d =
     (\<lparr>messages = [Assistant [Text_block ''Implemented.''], Result_success (Some ''Feature complete'')],
       sdk_thrown = None\<rparr>,
      mark_passes (prompt_id (prompt req)) d)"

text \<open>An agent that cannot be reached: the stream throws before any message.\<close>

definition agent_unreachable :: sdk where
  "agent_unreachable req d =
     (\<lparr>messages = [], sdk_thrown = Some (Error_obj ''Error'' ''connect ECONNREFUSED'')\<rparr>, d)"

text \<open>The time of the example sessions.\<close>

definition t0 :: string where
  "t0 = ''2025-01-01T00:00:00.000Z''"

subsection \<open>Tasks as the extractors see them\<close>



text \<open>A name in double quotes.\<close>

definition quoted :: "string \<Rightarrow> string" where
  "quoted s = [CHR 0x22] @ s @ [CHR 0x22]"

text \<open>
  The text of a minimal valid task with the given id and title, on one line, and the value
  it denotes.
\<close>

definition task_json :: "string \<Rightarrow> string \<Rightarrow> string" where
  "task_json i t =
     ''{'' @ quoted ''id'' @ '':'' @ quoted i @ '','' @
     quoted ''title'' @ '':'' @ quoted t @ '','' @
     quoted ''description'' @ '':'' @ quoted ''D'' @ '','' @
     quoted ''acceptance_criteria'' @ '':['' @ quoted ''c'' @ ''],'' @
     quoted ''passes'' @ '':false}''"

definition task_obj :: "string \<Rightarrow> string \<Rightarrow> json" where
  "task_obj i t =
     JObj [(''id'', JStr i), (''title'', JStr t), (''description'', JStr ''D''),
           (''acceptance_criteria'', JArr [JStr ''c'']), (''passes'', JBool False)]"

text \<open>The same task over several lines.\<close>

definition task_lines :: "string \<Rightarrow> string \<Rightarrow> string" where
  "task_lines i t =
     join [CHR 0x0A]
       [''{'',
        ''  '' @ quoted ''id'' @ '': '' @ quoted i @ '','',
        ''  '' @ quoted ''title'' @ '': '' @ quoted t @ '','',
        ''  '' @ quoted ''description'' @ '': '' @ quoted ''D'' @ '','',
        ''  '' @ quoted ''acceptance_criteria'' @ '': ['' @ quoted ''c'' @ ''],'',
        ''  '' @ quoted ''passes'' @ '': false'',
        ''}'']"


definition shape_fenced :: string where
  "shape_fenced = ''```json'' @ [CHR 0x0A] @ task_json ''F010'' ''T'' @ [CHR 0x0A] @ ''```''"

definition shape_prose :: string where
  "shape_prose = ''Here is the feature:'' @ [CHR 0x0A] @ task_json ''F010'' ''T''"


definition shape_array :: string where
  "shape_array = ''['' @ task_json ''F010'' ''T'' @ '','' @ task_json ''F011'' ''U'' @ '']''"

text \<open>
  Further inputs: several lines with balanced braces in a string value, between prose;
  the same with an unbalanced brace; a task without a title; a task with no criteria.
\<close>

definition shape_lines_prose :: string where
  "shape_lines_prose =
     ''Here you go:'' @ [CHR 0x0A] @ task_lines ''F010'' ''Use {x} here'' @ [CHR 0x0A] @ ''Done.''"

definition shape_fragile :: string where
  "shape_fragile =
     ''Here you go:'' @ [CHR 0x0A] @ task_lines ''F010'' ''Use } here'' @ [CHR 0x0A] @ ''Done.''"






text \<open>An agent that answers with the given text and changes nothing.\<close>

definition agent_says :: "string \<Rightarrow> sdk" where
  "agent_says out req d =
     (\<lparr>messages = [Assistant [Text_block out], Result_success None], sdk_thrown = None\<rparr>, d)"

text \<open>A batch whose second task has the id of the stored \<open>F002\<close>, and one with new ids.\<close>

definition batch_with_duplicate :: string where
  "batch_with_duplicate = ''['' @ task_json ''F010'' ''T'' @ '','' @ task_json ''F002'' ''U'' @ '']''"

definition batch_new :: string where
  "batch_new = ''['' @ task_json ''F010'' ''T'' @ '','' @ task_json ''F011'' ''U'' @ '']''"

section \<open>Loading and selecting\<close>

lemma loadFeatureList_eq:
  "loadFeatureList d = Inr (case feature_list_json d of Stored fl \<Rightarrow> Some fl | _ \<Rightarrow> None)"
  by (cases "feature_list_json d") (simp_all add: loadFeatureList_def existsSync_def)

lemma getNextFeature_Inr: "\<exists>x. getNextFeature d = Inr x"
  by (simp add: getNextFeature_def loadFeatureList_eq split: stored.split)

lemma buildSessionContext_cases:
  "buildSessionContext d = Inr None \<or> (\<exists>f. buildSessionContext d = Inr (Some f))"
  using getNextFeature_Inr[of d] by (auto simp: buildSessionContext_def)

lemma type_matches_category: "type_matches ty f \<longleftrightarrow> category_of f = ty"
  by (cases "type_f f") (auto simp: type_matches_def category_of_def)

lemma earliest_find: "earliest P xs (find P xs)"
proof (cases "find P xs")
  case None
  then have "\<forall>x \<in> set xs. \<not> P x" by (simp add: find_None_iff)
  then show ?thesis by (simp add: earliest_def None)
next
  case (Some x)
  then have "\<exists>i < length xs. xs ! i = x \<and> P x \<and> (\<forall>j < i. \<not> P (xs ! j))"
    by (auto simp: find_Some_iff)
  then show ?thesis by (simp add: earliest_def Some)
qed

lemma earliest_unique: "earliest P xs r \<Longrightarrow> r = find P xs"
proof (cases r)
  case None
  assume "earliest P xs r"
  with None have "find P xs = None" by (simp add: earliest_def find_None_iff)
  with None show ?thesis by simp
next
  case (Some x)
  assume "earliest P xs r"
  with Some have "find P xs = Some x" by (auto simp: earliest_def find_Some_iff)
  with Some show ?thesis by simp
qed

lemma earliest_iff: "earliest P xs r \<longleftrightarrow> find P xs = r"
  using earliest_find[of P xs] earliest_unique[of P xs r] by blast

lemma find_skip: "\<forall>x \<in> set pre. \<not> P x \<Longrightarrow> find P (pre @ xs) = find P xs"
  by (induction pre) auto

lemma find_weaken: "find (\<lambda>x. P x \<and> Q x) xs = Some y \<Longrightarrow> \<exists>z. find P xs = Some z"
  by (induction xs) (auto split: if_splits)

lemma getNextFeature_with:
  "getNextFeature (with_features d fl fs) = Inr (find (\<lambda>f. \<not> passes f) fs)"
  by (simp add: getNextFeature_def loadFeatureList_eq with_features_def)

lemma getNextFeatureByType_with:
  "getNextFeatureByType ty (with_features d fl fs) =
     Inr (find (\<lambda>f. \<not> passes f \<and> type_matches ty f) fs)"
  by (simp add: getNextFeatureByType_def loadFeatureList_eq with_features_def)

text \<open>
  C2. On every stored list, \<^verbatim>\<open>getNextFeature\<close> returns the earliest task in list order whose
  \<^verbatim>\<open>passes\<close> is false, and \<^verbatim>\<open>getNextFeatureByType\<close> the earliest such task of the given
  category, a task without \<^verbatim>\<open>type\<close> counting as \<^verbatim>\<open>feature\<close>; each returns \<^verbatim>\<open>null\<close> exactly
  when there is no such task. Completed tasks put in front of the list do not change the
  result.
\<close>

theorem nextTask_earliest_pending:
  "(\<forall>r. getNextFeature (with_features d fl fs) = Inr r \<longleftrightarrow> earliest (eligible None) fs r) \<and>
   (\<forall>r. getNextFeatureByType ty (with_features d fl fs) = Inr r \<longleftrightarrow>
        earliest (eligible (Some ty)) fs r) \<and>
   ((\<forall>g \<in> set done. passes g) \<longrightarrow>
      getNextFeature (with_features d fl (done @ fs)) = getNextFeature (with_features d fl fs) \<and>
      getNextFeatureByType ty (with_features d fl (done @ fs)) =
        getNextFeatureByType ty (with_features d fl fs))"
proof -
  have e1: "eligible None = (\<lambda>f. \<not> passes f)"
    by (rule ext) (simp add: eligible_def)
  have e2: "eligible (Some ty) = (\<lambda>f. \<not> passes f \<and> type_matches ty f)"
    by (rule ext) (simp add: eligible_def type_matches_category)
  have a: "getNextFeature (with_features d fl fs) = Inr r \<longleftrightarrow> earliest (eligible None) fs r" for r
    by (simp only: getNextFeature_with earliest_iff e1 sum.inject)
  have b: "getNextFeatureByType ty (with_features d fl fs) = Inr r \<longleftrightarrow>
        earliest (eligible (Some ty)) fs r" for r
    by (simp only: getNextFeatureByType_with earliest_iff e2 sum.inject)
  have c: "getNextFeature (with_features d fl (done @ fs)) = getNextFeature (with_features d fl fs)"
    if "\<forall>g \<in> set done. passes g"
    using that by (simp add: getNextFeature_with find_skip)
  have c': "getNextFeatureByType ty (with_features d fl (done @ fs)) =
        getNextFeatureByType ty (with_features d fl fs)"
    if "\<forall>g \<in> set done. passes g"
    using that by (simp add: getNextFeatureByType_with find_skip)
  from a b c c' show ?thesis by blast
qed

text \<open>
  The list \<^verbatim>\<open>[F000 (complete), F001 (no type), F002 (bugfix)]\<close>: the completed task in front
  does not change the selection, and no task of category \<^verbatim>\<open>docs\<close> is found.
\<close>

theorem nextTask_earliest_pending_witness:
  "getNextFeature (with_features (disk_with []) demo_list [F000, F001, F002]) = Inr (Some F001) \<and>
   getNextFeatureByType ''bugfix'' (with_features (disk_with []) demo_list [F000, F001, F002]) =
     Inr (Some F002) \<and>
   getNextFeatureByType ''feature'' (with_features (disk_with []) demo_list ([F000] @ [F001, F002])) =
     Inr (Some F001) \<and>
   earliest (eligible (Some ''docs'')) [F000, F001, F002] None"
proof -
  note t = nextTask_earliest_pending[of "disk_with []" demo_list "[F001, F002]" "''feature''" "[F000]"]
  note u = nextTask_earliest_pending[of "disk_with []" demo_list "[F000, F001, F002]" "''docs''" "[]"]
  have p: "\<forall>g \<in> set [F000]. passes g" by (simp add: F000_def)
  have a: "getNextFeatureByType ''feature'' (with_features (disk_with []) demo_list ([F000] @ [F001, F002])) =
        getNextFeatureByType ''feature'' (with_features (disk_with []) demo_list [F001, F002])"
    using t p by blast
  have b: "getNextFeatureByType ''docs'' (with_features (disk_with []) demo_list [F000, F001, F002]) =
        Inr None"
    by (simp add: getNextFeatureByType_def loadFeatureList_eq with_features_def disk_with_def
        F000_def F001_def F002_def type_matches_def)
  have c: "earliest (eligible (Some ''docs'')) [F000, F001, F002] None"
    using u b by blast
  show ?thesis
    using a c
    by (simp add: getNextFeature_def getNextFeatureByType_def loadFeatureList_eq with_features_def
        disk_with_def F000_def F001_def F002_def type_matches_def)
qed

text \<open>
  C9, as the code has it. \<^verbatim>\<open>loadFeatureList\<close> never rejects: it returns the list when the
  file is present and parses, and \<^verbatim>\<open>null\<close> both when the file is absent and when reading
  or parsing it throws.
\<close>

theorem loadFeatureList_masks_failure:
  "loadFeatureList d =
     Inr (case feature_list_json d of
            Stored fl \<Rightarrow> Some fl
          | Unreadable e \<Rightarrow> None
          | Absent \<Rightarrow> None)"
  by (cases "feature_list_json d") (simp_all add: loadFeatureList_def existsSync_def)

text \<open>
  C9 as stated fails: a file that exists and does not parse gives \<^verbatim>\<open>null\<close>, not the error,
  so \<^verbatim>\<open>null\<close> does not tell a missing store from a broken one.
\<close>

theorem loadFeatureList_propagates_counterexample:
  "\<not> (\<forall>d e. feature_list_json d = Unreadable e \<longrightarrow> loadFeatureList d = Inl e) \<and>
   \<not> (\<forall>d. loadFeatureList d = Inr None \<longrightarrow> feature_list_json d = Absent)"
proof -
  let ?d = "\<lparr>feature_list_json = Unreadable (Error_obj ''SyntaxError'' ''Unexpected end of JSON input''),
            progress_log = None, git_head = None, write_error = None\<rparr>"
  have "loadFeatureList ?d = Inr None" by (simp add: loadFeatureList_def existsSync_def)
  moreover have "feature_list_json ?d =
      Unreadable (Error_obj ''SyntaxError'' ''Unexpected end of JSON input'')" by simp
  ultimately show ?thesis by (intro conjI notI; force)
qed

section \<open>One session\<close>

lemma check_complete_eq:
  "check_complete now f d =
     Inr \<lparr>success = task_done d (id_f f), featureId = id_f f,
          commitHash = map_option trim (git_head d), error = None,
          progressEntry = entry now f (if task_done d (id_f f) then ''COMPLETED'' else ''INCOMPLETE'')\<rparr>"
  by (cases "feature_list_json d")
     (simp_all add: check_complete_def task_done_def loadFeatureList_eq Let_def split: option.split)

lemma runSession_selected:
  assumes "buildSessionContext (disk_of w) = Inr (Some f)"
  shows "\<exists>r. runSession query now mt w =
           (Inr r, \<lparr>disk_of = snd (query \<lparr>prompt = Coding_prompt f, maxTurns = mt\<rparr> (disk_of w)),
                    calls = calls w @ [(disk_of w, \<lparr>prompt = Coding_prompt f, maxTurns = mt\<rparr>)]\<rparr>) \<and>
           featureId r = id_f f"
proof -
  obtain result d' where q: "query \<lparr>prompt = Coding_prompt f, maxTurns = mt\<rparr> (disk_of w) = (result, d')"
    by (cases "query \<lparr>prompt = Coding_prompt f, maxTurns = mt\<rparr> (disk_of w)")
  show ?thesis
  proof (cases result)
    case (Inl t)
    with assms q show ?thesis by (simp add: runSession_def Let_def caught_def)
  next
    case (Inr res)
    with assms q show ?thesis
      by (simp add: runSession_def Let_def check_complete_eq)
  qed
qed

lemma completed_not_error: "''COMPLETED'' \<noteq> ''ERROR: '' @ s"
  by simp

lemma runSession_entry:
  assumes "buildSessionContext (disk_of w) = Inr (Some f)"
    and q: "query \<lparr>prompt = Coding_prompt f, maxTurns = mt\<rparr> (disk_of w) = (result, d')"
  shows "\<exists>r w'. runSession query now mt w = (Inr r, w') \<and> disk_of w' = d' \<and>
           progressEntry r = entry now f (outcome_word result (task_done d' (id_f f))) \<and>
           (success r \<longleftrightarrow> outcome_word result (task_done d' (id_f f)) = ''COMPLETED'')"
proof (cases result)
  case (Inl t)
  with assms show ?thesis
    by (simp add: runSession_def Let_def caught_def outcome_word_def)
next
  case (Inr res)
  with assms show ?thesis
    by (simp add: runSession_def Let_def check_complete_eq outcome_word_def)
qed

lemma append_all_write_error: "write_error (append_all es d) = write_error d"
  unfolding append_all_def
  by (induction es arbitrary: d) (simp_all add: appendToProgressLog_def split: option.split)

lemma join_snoc: "xs \<noteq> [] \<Longrightarrow> join sep (xs @ [e]) = join sep xs @ sep @ e"
  by (induction sep xs rule: join.induct) simp_all

lemma append_all_log:
  assumes "write_error d = None"
  shows "progress_log (append_all es d) =
     (if es = [] then progress_log d
      else Some (join [CHR 0x0A, CHR 0x0A]
                  ((case progress_log d of None \<Rightarrow> [] | Some c \<Rightarrow> [c]) @ es)))"
proof (induction es rule: rev_induct)
  case Nil
  show ?case by (simp add: append_all_def)
next
  case (snoc e es)
  have s: "append_all (es @ [e]) d = snd (appendToProgressLog e (append_all es d))"
    by (simp add: append_all_def)
  have w: "write_error (append_all es d) = None"
    using assms by (simp add: append_all_write_error)
  show ?case
  proof (cases "es = []")
    case True
    then show ?thesis using assms
      by (simp add: append_all_def appendToProgressLog_def split: option.split)
  next
    case False
    with snoc w show ?thesis
      by (simp add: s appendToProgressLog_def join_snoc del: append_assoc
          add: append_assoc[symmetric])
  qed
qed

lemma runSession_none:
  assumes "buildSessionContext (disk_of w) = Inr None"
  shows "\<exists>r. runSession query now mt w = (Inr r, w) \<and> \<not> success r \<and> featureId r = [] \<and>
           progressEntry r = []"
  using assms by (simp add: runSession_def)

lemma runSession_disk:
  "disk_of (snd (runSession query now mt w)) =
     (case buildSessionContext (disk_of w) of
        Inr (Some f) \<Rightarrow> snd (query \<lparr>prompt = Coding_prompt f, maxTurns = mt\<rparr> (disk_of w))
      | _ \<Rightarrow> disk_of w)"
proof -
  from buildSessionContext_cases[of "disk_of w"] show ?thesis
  proof
    assume "buildSessionContext (disk_of w) = Inr None"
    then show ?thesis using runSession_none[of w query now mt] by auto
  next
    assume "\<exists>f. buildSessionContext (disk_of w) = Inr (Some f)"
    then obtain f where f: "buildSessionContext (disk_of w) = Inr (Some f)" ..
    from runSession_selected[OF f, of query now mt] f show ?thesis by auto
  qed
qed

lemmas session_eval =
  runSession_def buildSessionContext_def getNextFeature_def loadFeatureList_eq check_complete_eq
  task_done_def disk_with_def demo_list_def F001_def F002_def F003_def runAgentQuery_def
  mark_passes_def Let_def t0_def

text \<open>
  C1, as the code has it. \<^verbatim>\<open>runSession\<close> always resolves, and its \<^verbatim>\<open>success\<close> is true exactly
  when a task was selected, the agent call returned a successful result, and re-reading the
  list after the call shows the selected task's \<^verbatim>\<open>passes\<close> true. A successful self-report is
  necessary and never sufficient.
\<close>

theorem runSession_success_iff:
  "\<exists>r w'. runSession query now mt w = (Inr r, w') \<and>
     (success r \<longleftrightarrow>
        (\<exists>f res. buildSessionContext (disk_of w) = Inr (Some f) \<and>
           fst (query \<lparr>prompt = Coding_prompt f, maxTurns = mt\<rparr> (disk_of w)) = Inr res \<and>
           q_success res \<and> task_done (disk_of w') (id_f f)))"
proof -
  obtain x where x: "buildSessionContext (disk_of w) = Inr x"
    using getNextFeature_Inr by (auto simp: buildSessionContext_def)
  show ?thesis
  proof (cases x)
    case None
    with x show ?thesis by (simp add: runSession_def)
  next
    case (Some f)
    obtain result d' where q: "query \<lparr>prompt = Coding_prompt f, maxTurns = mt\<rparr> (disk_of w) = (result, d')"
      by (cases "query \<lparr>prompt = Coding_prompt f, maxTurns = mt\<rparr> (disk_of w)")
    show ?thesis
    proof (cases result)
      case (Inl t)
      with x Some q show ?thesis by (simp add: runSession_def Let_def caught_def)
    next
      case (Inr res)
      with x Some q show ?thesis
        by (simp add: runSession_def Let_def check_complete_eq)
    qed
  qed
qed

text \<open>
  One session on the queue \<^verbatim>\<open>[F001, F002]\<close> with an agent that reports success and never
  sets \<^verbatim>\<open>passes\<close>: the session fails, for \<^verbatim>\<open>F001\<close>, and the disk is as before.
\<close>

theorem runSession_self_report_witness:
  "\<exists>r w'. runSession (runAgentQuery agent_claims_success) t0 50
        \<lparr>disk_of = disk_with [F001, F002], calls = []\<rparr> = (Inr r, w') \<and>
      \<not> success r \<and> featureId r = ''F001'' \<and> disk_of w' = disk_with [F001, F002]"
  using runSession_success_iff[of "runAgentQuery agent_claims_success" t0 50
        "\<lparr>disk_of = disk_with [F001, F002], calls = []\<rparr>"]
  by (simp add: session_eval agent_claims_success_def)

text \<open>
  C1 as stated fails: an agent that sets \<^verbatim>\<open>passes\<close> of \<^verbatim>\<open>F001\<close> on disk and then ends with an
  error result gives a failed session, although re-reading the list shows the task complete.
\<close>

theorem runSession_success_counterexample:
  "\<not> (\<forall>query now mt w r w'. runSession query now mt w = (Inr r, w') \<longrightarrow>
         (success r \<longleftrightarrow> task_done (disk_of w') (featureId r)))"
proof
  assume a: "\<forall>query now mt w r w'. runSession query now mt w = (Inr r, w') \<longrightarrow>
         (success r \<longleftrightarrow> task_done (disk_of w') (featureId r))"
  have "\<exists>r w'. runSession (runAgentQuery agent_flips_then_fails) t0 50
            \<lparr>disk_of = disk_with [F001, F002], calls = []\<rparr> = (Inr r, w') \<and>
          \<not> success r \<and> featureId r = ''F001'' \<and> task_done (disk_of w') ''F001''"
    by (simp add: session_eval agent_flips_then_fails_def)
  with a show False by metis
qed

text \<open>
  C7. When a task is selected and the agent call throws or returns an unsuccessful result,
  \<^verbatim>\<open>runSession\<close> resolves to a failed result for that task whose \<^verbatim>\<open>error\<close> is the thrown
  message or the result's error text (the fixed message when the result has none), and the
  disk is the one the agent call left.
\<close>

theorem runSession_agent_failure:
  assumes "buildSessionContext (disk_of w) = Inr (Some f)"
    and "query \<lparr>prompt = Coding_prompt f, maxTurns = mt\<rparr> (disk_of w) = (result, d')"
    and "agent_failed result"
  shows "\<exists>r w'. runSession query now mt w = (Inr r, w') \<and> \<not> success r \<and> featureId r = id_f f \<and>
           error r = Some (underlying_error result) \<and> disk_of w' = d'"
proof (cases result)
  case (Inl t)
  with assms show ?thesis
    by (simp add: runSession_def Let_def caught_def underlying_error_def)
next
  case (Inr res)
  with assms show ?thesis
    by (simp add: runSession_def Let_def agent_failed_def underlying_error_def)
qed

text \<open>
  An agent that cannot be reached: \<^verbatim>\<open>runAgentQuery\<close> turns the thrown error into an
  unsuccessful result, and the session reports its message, with the disk untouched.
\<close>

theorem runSession_agent_failure_witness:
  "\<exists>r w'. runSession (runAgentQuery agent_unreachable) t0 50
        \<lparr>disk_of = disk_with [F001, F002], calls = []\<rparr> = (Inr r, w') \<and>
     \<not> success r \<and> featureId r = ''F001'' \<and> error r = Some ''connect ECONNREFUSED'' \<and>
     disk_of w' = disk_with [F001, F002]"
proof -
  let ?w = "\<lparr>disk_of = disk_with [F001, F002], calls = []\<rparr>"
  let ?res = "Inr \<lparr>q_success = False, q_output = [], q_error = Some ''connect ECONNREFUSED''\<rparr>
                :: thrown + AgentQueryResult"
  have 1: "buildSessionContext (disk_of ?w) = Inr (Some F001)"
    by (simp add: session_eval)
  have 2: "runAgentQuery agent_unreachable \<lparr>prompt = Coding_prompt F001, maxTurns = 50\<rparr> (disk_of ?w) =
        (?res, disk_with [F001, F002])"
    by (simp add: runAgentQuery_def agent_unreachable_def)
  have 3: "agent_failed ?res" by (simp add: agent_failed_def)
  from runSession_agent_failure[where w = ?w and f = F001 and query = "runAgentQuery agent_unreachable"
      and mt = 50 and result = ?res and d' = "disk_with [F001, F002]" and now = t0] 1 2 3
  show ?thesis by (simp add: underlying_error_def F001_def)
qed

text \<open>
  C10. On every path of \<^verbatim>\<open>runSession\<close> the disk afterwards is the disk the agent call left,
  or the disk before when no task was selected; so with an agent that writes nothing the
  disk, and the feature list on it, is exactly as it was.
\<close>

theorem runSession_never_writes:
  "disk_of (snd (runSession query now mt w)) =
     (case buildSessionContext (disk_of w) of
        Inr (Some f) \<Rightarrow> snd (query \<lparr>prompt = Coding_prompt f, maxTurns = mt\<rparr> (disk_of w))
      | _ \<Rightarrow> disk_of w) \<and>
   ((\<forall>req d. snd (query req d) = d) \<longrightarrow> disk_of (snd (runSession query now mt w)) = disk_of w)"
proof -
  have "disk_of (snd (runSession query now mt w)) = disk_of w" if "\<forall>req d. snd (query req d) = d"
    using that by (simp add: runSession_disk split: sum.split option.split)
  then show ?thesis using runSession_disk by blast
qed

text \<open>
  With the agent that changes nothing the disk is unchanged; with the agent that completes
  \<^verbatim>\<open>F001\<close> the disk is the one that agent wrote.
\<close>

theorem runSession_never_writes_witness:
  "disk_of (snd (runSession (runAgentQuery agent_claims_success) t0 50
        \<lparr>disk_of = disk_with [F001, F002], calls = []\<rparr>)) = disk_with [F001, F002] \<and>
   disk_of (snd (runSession (runAgentQuery agent_completes) t0 50
        \<lparr>disk_of = disk_with [F001, F002], calls = []\<rparr>)) =
     mark_passes ''F001'' (disk_with [F001, F002])"
proof -
  let ?w = "\<lparr>disk_of = disk_with [F001, F002], calls = []\<rparr>"
  have n: "\<forall>req d. snd (runAgentQuery agent_claims_success req d) = d"
    by (simp add: runAgentQuery_def agent_claims_success_def)
  have b: "buildSessionContext (disk_with [F001, F002]) = Inr (Some F001)"
    by (simp add: session_eval)
  have c: "snd (runAgentQuery agent_completes \<lparr>prompt = Coding_prompt F001, maxTurns = 50\<rparr>
             (disk_with [F001, F002])) = mark_passes ''F001'' (disk_with [F001, F002])"
    by (simp add: runAgentQuery_def agent_completes_def F001_def)
  from runSession_never_writes[where query = "runAgentQuery agent_claims_success" and now = t0
        and mt = 50 and w = ?w] n
    runSession_never_writes[where query = "runAgentQuery agent_completes" and now = t0
        and mt = 50 and w = ?w] b c
  show ?thesis by simp
qed

text \<open>
  C8, as the code has it. A session for a selected task \<open>f\<close> whose agent call gave \<open>result\<close> and
  left the disk \<open>d'\<close> resolves to a result whose progress entry is the bracketed time, the
  bracketed id of \<open>f\<close>, its title and the outcome of that session: \<^verbatim>\<open>ERROR:\<close> with the thrown
  value when the call threw, \<^verbatim>\<open>ERROR\<close> when its result is unsuccessful, and otherwise
  \<^verbatim>\<open>COMPLETED\<close> or \<^verbatim>\<open>INCOMPLETE\<close> as re-reading the list shows the task; the session succeeded
  exactly when the outcome is \<^verbatim>\<open>COMPLETED\<close>. The disk afterwards, and \<^verbatim>\<open>progress.log\<close> on it,
  is the one the agent call left: the entry is returned, not appended. A session that
  selects no task returns an empty entry and leaves the disk as it was. Entries appended one
  after the other by \<^verbatim>\<open>appendToProgressLog\<close>, when the writes go through, stand in the log
  in that order after what was there, each separated from the one before by an empty line.
\<close>

theorem runSession_returns_entry:
  "(\<forall>f result d'.
      buildSessionContext (disk_of w) = Inr (Some f) \<and>
      query \<lparr>prompt = Coding_prompt f, maxTurns = mt\<rparr> (disk_of w) = (result, d') \<longrightarrow>
      (\<exists>r w'. runSession query now mt w = (Inr r, w') \<and> disk_of w' = d' \<and>
         progressEntry r =
           ''['' @ now @ ''] ['' @ id_f f @ ''] '' @ title f @ '' - '' @
           outcome_word result (task_done d' (id_f f)) \<and>
         (success r \<longleftrightarrow> outcome_word result (task_done d' (id_f f)) = ''COMPLETED''))) \<and>
   (buildSessionContext (disk_of w) = Inr None \<longrightarrow>
      (\<exists>r. runSession query now mt w = (Inr r, w) \<and> \<not> success r \<and> progressEntry r = [])) \<and>
   (write_error d = None \<longrightarrow>
      progress_log (append_all es d) =
        (if es = [] then progress_log d
         else Some (join [CHR 0x0A, CHR 0x0A]
                     ((case progress_log d of None \<Rightarrow> [] | Some c \<Rightarrow> [c]) @ es))))"
proof (intro conjI allI impI)
  fix f result d'
  assume a: "buildSessionContext (disk_of w) = Inr (Some f) \<and>
      query \<lparr>prompt = Coding_prompt f, maxTurns = mt\<rparr> (disk_of w) = (result, d')"
  from a runSession_entry[where w = w and f = f and query = query and mt = mt
      and result = result and d' = d' and now = now]
  show "\<exists>r w'. runSession query now mt w = (Inr r, w') \<and> disk_of w' = d' \<and>
         progressEntry r =
           ''['' @ now @ ''] ['' @ id_f f @ ''] '' @ title f @ '' - '' @
           outcome_word result (task_done d' (id_f f)) \<and>
         (success r \<longleftrightarrow> outcome_word result (task_done d' (id_f f)) = ''COMPLETED'')"
    by (simp only: entry_def)
next
  assume "buildSessionContext (disk_of w) = Inr None"
  from runSession_none[OF this, of query now mt]
  show "\<exists>r. runSession query now mt w = (Inr r, w) \<and> \<not> success r \<and> progressEntry r = []"
    by blast
next
  assume "write_error d = None"
  then show "progress_log (append_all es d) =
        (if es = [] then progress_log d
         else Some (join [CHR 0x0A, CHR 0x0A]
                     ((case progress_log d of None \<Rightarrow> [] | Some c \<Rightarrow> [c]) @ es)))"
    by (rule append_all_log)
qed

text \<open>
  Four sessions for \<^verbatim>\<open>F001\<close> on a disk with an empty \<^verbatim>\<open>progress.log\<close>, with an agent that
  completes the task, one that only says so, one that cannot be reached, and a call that
  throws: the entries are the \<^verbatim>\<open>COMPLETED\<close>, \<^verbatim>\<open>INCOMPLETE\<close>, \<^verbatim>\<open>ERROR\<close> and \<^verbatim>\<open>ERROR:\<close> lines, only
  the first session succeeds, and the log is still empty after each. Appending two entries
  to a log with one entry puts an empty line between each two.
\<close>

theorem runSession_returns_entry_witness:
  "(\<exists>r w'. runSession (runAgentQuery agent_completes) t0 50
        \<lparr>disk_of = disk_with [F001, F002], calls = []\<rparr> = (Inr r, w') \<and>
      progressEntry r = ''[2025-01-01T00:00:00.000Z] [F001] Login - COMPLETED'' \<and> success r \<and>
      progress_log (disk_of w') = Some []) \<and>
   (\<exists>r w'. runSession (runAgentQuery agent_claims_success) t0 50
        \<lparr>disk_of = disk_with [F001, F002], calls = []\<rparr> = (Inr r, w') \<and>
      progressEntry r = ''[2025-01-01T00:00:00.000Z] [F001] Login - INCOMPLETE'' \<and> \<not> success r \<and>
      progress_log (disk_of w') = Some []) \<and>
   (\<exists>r w'. runSession (runAgentQuery agent_unreachable) t0 50
        \<lparr>disk_of = disk_with [F001, F002], calls = []\<rparr> = (Inr r, w') \<and>
      progressEntry r = ''[2025-01-01T00:00:00.000Z] [F001] Login - ERROR'' \<and> \<not> success r \<and>
      progress_log (disk_of w') = Some []) \<and>
   (\<exists>r w'. runSession (\<lambda>req d. (Inl (Error_obj ''Error'' ''spawn ENOENT''), d)) t0 50
        \<lparr>disk_of = disk_with [F001, F002], calls = []\<rparr> = (Inr r, w') \<and>
      progressEntry r = ''[2025-01-01T00:00:00.000Z] [F001] Login - ERROR: Error: spawn ENOENT'' \<and>
      \<not> success r \<and> progress_log (disk_of w') = Some []) \<and>
   progress_log (append_all [''second entry'', ''third entry'']
        ((disk_with [F001, F002])\<lparr>progress_log := Some ''first entry''\<rparr>)) =
     Some (''first entry'' @ [CHR 0x0A, CHR 0x0A] @ ''second entry'' @ [CHR 0x0A, CHR 0x0A] @
           ''third entry'')"
proof -
  let ?w = "\<lparr>disk_of = disk_with [F001, F002], calls = []\<rparr>"
  let ?d = "(disk_with [F001, F002])\<lparr>progress_log := Some ''first entry''\<rparr>"
  let ?req = "\<lparr>prompt = Coding_prompt F001, maxTurns = 50\<rparr>"
  let ?thrower = "(\<lambda>req d. (Inl (Error_obj ''Error'' ''spawn ENOENT''), d)) :: agent_query"
  have b: "buildSessionContext (disk_of ?w) = Inr (Some F001)"
    by (simp add: session_eval)
  have w: "write_error ?d = None" by (simp add: disk_with_def)
  have q1: "runAgentQuery agent_completes ?req (disk_of ?w) =
      (Inr \<lparr>q_success = True, q_output = ''Feature complete'', q_error = None\<rparr>,
       mark_passes ''F001'' (disk_with [F001, F002]))"
    by (simp add: runAgentQuery_def agent_completes_def F001_def)
  have q2: "runAgentQuery agent_claims_success ?req (disk_of ?w) =
      (Inr \<lparr>q_success = True, q_output = ''Feature complete'', q_error = None\<rparr>, disk_with [F001, F002])"
    by (simp add: runAgentQuery_def agent_claims_success_def)
  have q3: "runAgentQuery agent_unreachable ?req (disk_of ?w) =
      (Inr \<lparr>q_success = False, q_output = [], q_error = Some ''connect ECONNREFUSED''\<rparr>,
       disk_with [F001, F002])"
    by (simp add: runAgentQuery_def agent_unreachable_def)
  have q4: "?thrower ?req (disk_of ?w) = (Inl (Error_obj ''Error'' ''spawn ENOENT''), disk_with [F001, F002])"
    by simp
  have d1: "task_done (mark_passes ''F001'' (disk_with [F001, F002])) (id_f F001)"
    by (simp add: task_done_def loadFeatureList_eq mark_passes_def disk_with_def F001_def F002_def)
  have d2: "\<not> task_done (disk_with [F001, F002]) (id_f F001)"
    by (simp add: task_done_def loadFeatureList_eq disk_with_def F001_def F002_def)
  have l1: "progress_log (mark_passes ''F001'' (disk_with [F001, F002])) = Some []"
    by (simp add: mark_passes_def disk_with_def)
  have l2: "progress_log (disk_with [F001, F002]) = Some []"
    by (simp add: disk_with_def)
  note t1 = runSession_returns_entry[where query = "runAgentQuery agent_completes"
      and now = t0 and mt = 50 and w = ?w and d = ?d and es = "[''second entry'', ''third entry'']",
      THEN conjunct1, rule_format, OF conjI[OF b q1]]
  note t2 = runSession_returns_entry[where query = "runAgentQuery agent_claims_success"
      and now = t0 and mt = 50 and w = ?w and d = ?d and es = "[]",
      THEN conjunct1, rule_format, OF conjI[OF b q2]]
  note t3 = runSession_returns_entry[where query = "runAgentQuery agent_unreachable"
      and now = t0 and mt = 50 and w = ?w and d = ?d and es = "[]",
      THEN conjunct1, rule_format, OF conjI[OF b q3]]
  note t4 = runSession_returns_entry[where query = ?thrower
      and now = t0 and mt = 50 and w = ?w and d = ?d and es = "[]",
      THEN conjunct1, rule_format, OF conjI[OF b q4]]
  note t5 = runSession_returns_entry[where query = "runAgentQuery agent_completes"
      and now = t0 and mt = 50 and w = ?w and d = ?d and es = "[''second entry'', ''third entry'']",
      THEN conjunct2, THEN conjunct2, rule_format, OF w]
  have 1: "\<exists>r w'. runSession (runAgentQuery agent_completes) t0 50 ?w = (Inr r, w') \<and>
      progressEntry r = ''[2025-01-01T00:00:00.000Z] [F001] Login - COMPLETED'' \<and> success r \<and>
      progress_log (disk_of w') = Some []"
    using t1 d1 l1 by (auto simp: outcome_word_def F001_def t0_def)
  have 2: "\<exists>r w'. runSession (runAgentQuery agent_claims_success) t0 50 ?w = (Inr r, w') \<and>
      progressEntry r = ''[2025-01-01T00:00:00.000Z] [F001] Login - INCOMPLETE'' \<and> \<not> success r \<and>
      progress_log (disk_of w') = Some []"
    using t2 d2 l2 by (auto simp: outcome_word_def F001_def t0_def)
  have 3: "\<exists>r w'. runSession (runAgentQuery agent_unreachable) t0 50 ?w = (Inr r, w') \<and>
      progressEntry r = ''[2025-01-01T00:00:00.000Z] [F001] Login - ERROR'' \<and> \<not> success r \<and>
      progress_log (disk_of w') = Some []"
    using t3 l2 by (auto simp: outcome_word_def F001_def t0_def)
  have 4: "\<exists>r w'. runSession ?thrower t0 50 ?w = (Inr r, w') \<and>
      progressEntry r = ''[2025-01-01T00:00:00.000Z] [F001] Login - ERROR: Error: spawn ENOENT'' \<and>
      \<not> success r \<and> progress_log (disk_of w') = Some []"
    using t4 l2 by (auto simp: outcome_word_def F001_def t0_def)
  have 5: "progress_log (append_all [''second entry'', ''third entry''] ?d) =
     Some (''first entry'' @ [CHR 0x0A, CHR 0x0A] @ ''second entry'' @ [CHR 0x0A, CHR 0x0A] @
           ''third entry'')"
    using t5 by (simp add: disk_with_def)
  from 1 2 3 4 5 show ?thesis by (intro conjI)
qed

text \<open>
  C8 as stated fails: after a session for \<^verbatim>\<open>F001\<close> with an agent that writes nothing, the
  disk is not the result of appending the session's entry to any disk; the log is still
  empty.
\<close>

theorem runSession_journal_counterexample:
  "\<not> (\<forall>query now mt w r w'. runSession query now mt w = (Inr r, w') \<and> featureId r \<noteq> [] \<longrightarrow>
         (\<exists>d. disk_of w' = snd (appendToProgressLog (progressEntry r) d) \<and> write_error d = None))"
proof
  assume a: "\<forall>query now mt w r w'. runSession query now mt w = (Inr r, w') \<and> featureId r \<noteq> [] \<longrightarrow>
         (\<exists>d. disk_of w' = snd (appendToProgressLog (progressEntry r) d) \<and> write_error d = None)"
  have "\<exists>r w'. runSession (runAgentQuery agent_claims_success) t0 50
            \<lparr>disk_of = disk_with [F001, F002], calls = []\<rparr> = (Inr r, w') \<and>
          featureId r \<noteq> [] \<and> progressEntry r \<noteq> [] \<and> progress_log (disk_of w') = Some []"
    by (simp add: session_eval agent_claims_success_def entry_def)
  then obtain r w' where r: "runSession (runAgentQuery agent_claims_success) t0 50
            \<lparr>disk_of = disk_with [F001, F002], calls = []\<rparr> = (Inr r, w')"
     "featureId r \<noteq> []" "progressEntry r \<noteq> []" "progress_log (disk_of w') = Some []" by auto
  with a obtain d where d: "disk_of w' = snd (appendToProgressLog (progressEntry r) d)"
    "write_error d = None"
    by blast
  from d r(3) have "progress_log (disk_of w') \<noteq> Some []"
    by (simp add: appendToProgressLog_def split: option.split)
  with r(4) show False by simp
qed

section \<open>The loop\<close>

lemma nextTask_cases:
  "nextTask ty d = Inr None \<or> (\<exists>f. nextTask ty d = Inr (Some f))"
  by (cases "feature_list_json d")
     (auto simp: nextTask_def getNextFeature_def getNextFeatureByType_def loadFeatureList_eq
           split: option.split)

lemma nextTask_pending:
  assumes "nextTask ty d = Inr (Some f)"
  shows "\<exists>g. buildSessionContext d = Inr (Some g)"
proof (cases "feature_list_json d")
  case (Stored fl)
  with assms show ?thesis
    using find_weaken[of "\<lambda>f. \<not> passes f" "type_matches (the ty)" "features fl" f]
    by (auto simp: nextTask_def getNextFeature_def getNextFeatureByType_def loadFeatureList_eq
        buildSessionContext_def split: option.splits if_splits)
qed (use assms in \<open>auto simp: nextTask_def getNextFeature_def getNextFeatureByType_def
        loadFeatureList_eq split: option.splits if_splits\<close>)

lemma eligible_filter: "(\<lambda>f. \<not> passes f \<and> type_matches t f) = eligible (Some t)"
  by (auto simp: eligible_def type_matches_category)

lemma eligible_any: "(\<lambda>f. \<not> passes f) = eligible None"
  by (auto simp: eligible_def)

lemma find_none: "find P [] = None"
  by simp

lemma nextTask_find:
  "nextTask ty d = Inr (find (eligible (active_filter ty)) (stored_features d))"
  by (cases "feature_list_json d"; cases ty)
     (simp_all add: nextTask_def getNextFeature_def getNextFeatureByType_def loadFeatureList_eq
        active_filter_def stored_features_def eligible_filter eligible_any)

lemma buildSessionContext_find:
  "buildSessionContext d = Inr (find (eligible None) (stored_features d))"
  by (cases "feature_list_json d")
     (simp_all add: buildSessionContext_def getNextFeature_def loadFeatureList_eq
        stored_features_def eligible_any)

lemma nextTask_none: "nextTask ty d = Inr None \<Longrightarrow> none_eligible ty d"
  by (simp add: nextTask_find none_eligible_def find_None_iff)

lemma loop_from_run:
  "\<exists>n rs cs w'.
     loop_from query clock ty mt maxSessions session acc w = (Inr (n, acc @ rs), w') \<and>
     calls w' = calls w @ cs \<and> length cs = length rs \<and>
     int (length rs) \<le> max 0 (maxSessions - session) \<and>
     list_all (call_ok ty mt) cs \<and>
     chained query session (disk_of w) cs (disk_of w') \<and>
     map featureId rs = map (prompt_id \<circ> prompt \<circ> snd) cs \<and>
     (int (length rs) < maxSessions - session \<longrightarrow> none_eligible ty (disk_of w'))"
proof (induction query clock ty mt maxSessions session acc w rule: loop_from.induct)
  case (1 query clock ty mt maxSessions session acc w)
  show ?case
  proof (cases "session < maxSessions")
    case False
    then show ?thesis by (subst loop_from.simps) simp
  next
    case True
    from nextTask_cases[of ty "disk_of w"] show ?thesis
    proof
      assume n: "nextTask ty (disk_of w) = Inr None"
      with True nextTask_none[OF n] show ?thesis by (subst loop_from.simps) simp
    next
      assume "\<exists>f. nextTask ty (disk_of w) = Inr (Some f)"
      then obtain g where g: "nextTask ty (disk_of w) = Inr (Some g)" ..
      from nextTask_pending[OF g] obtain f where f: "buildSessionContext (disk_of w) = Inr (Some f)" ..
      let ?req = "\<lparr>prompt = Coding_prompt f, maxTurns = mt\<rparr>"
      let ?w1 = "\<lparr>disk_of = snd (query (session + 1) ?req (disk_of w)),
                  calls = calls w @ [(disk_of w, ?req)]\<rparr>"
      from runSession_selected[OF f, of "query (session + 1)" "clock (session + 1)" mt]
      obtain r where r: "runSession (query (session + 1)) (clock (session + 1)) mt w = (Inr r, ?w1)"
        and rid: "featureId r = id_f f" by blast
      from "1.IH"[OF True g refl r[symmetric] refl]
      obtain n rs cs w' where ih:
        "loop_from query clock ty mt maxSessions (session + 1) (acc @ [r]) ?w1 =
           (Inr (n, (acc @ [r]) @ rs), w')"
        "calls w' = calls ?w1 @ cs" "length cs = length rs"
        "int (length rs) \<le> max 0 (maxSessions - (session + 1))"
        "list_all (call_ok ty mt) cs"
        "chained query (session + 1) (disk_of ?w1) cs (disk_of w')"
        "map featureId rs = map (prompt_id \<circ> prompt \<circ> snd) cs"
        "int (length rs) < maxSessions - (session + 1) \<longrightarrow> none_eligible ty (disk_of w')"
        by blast
      have step: "loop_from query clock ty mt maxSessions session acc w =
                  loop_from query clock ty mt maxSessions (session + 1) (acc @ [r]) ?w1"
        using True g r by (subst loop_from.simps) simp
      have eg: "earliest (eligible (active_filter ty)) (stored_features (disk_of w)) (Some g)"
        using g by (simp add: nextTask_find earliest_iff)
      have ef: "earliest (eligible None) (stored_features (disk_of w)) (Some f)"
        using f by (simp add: buildSessionContext_find earliest_iff)
      have ok: "call_ok ty mt (disk_of w, ?req)"
        unfolding call_ok_def prod.case
        by (rule exI[of _ g], rule exI[of _ f]) (simp add: eg ef)
      show ?thesis
      proof (intro exI conjI)
        show "loop_from query clock ty mt maxSessions session acc w = (Inr (n, acc @ (r # rs)), w')"
          using step ih(1) by simp
        show "calls w' = calls w @ ((disk_of w, ?req) # cs)" using ih(2) by simp
        show "length ((disk_of w, ?req) # cs) = length (r # rs)" using ih(3) by simp
        show "int (length (r # rs)) \<le> max 0 (maxSessions - session)" using ih(4) True by simp
        show "list_all (call_ok ty mt) ((disk_of w, ?req) # cs)" using ih(5) ok by simp
        show "chained query session (disk_of w) ((disk_of w, ?req) # cs) (disk_of w')"
          using ih(6) by simp
        show "map featureId (r # rs) = map (prompt_id \<circ> prompt \<circ> snd) ((disk_of w, ?req) # cs)"
          using ih(7) rid by simp
        show "int (length (r # rs)) < maxSessions - session \<longrightarrow> none_eligible ty (disk_of w')"
          using ih(8) by simp
      qed
    qed
  qed
qed

text \<open>
  C6. For every \<^verbatim>\<open>maxSessions\<close>, every \<^verbatim>\<open>--type\<close> filter and every disk the loop ends, with the
  results \<open>rs\<close> of the sessions it ran and the agent calls \<open>cs\<close> it made. There is exactly one
  call per session and there are at most \<^verbatim>\<open>maxSessions\<close> sessions. Every call started from a
  disk that holds a task eligible for the filter (incomplete and of the filter's category),
  and asked for the earliest incomplete task of that disk in list order; the session's
  result is for that task. Each call started from the disk the call before it left, the
  first from the initial disk, and the final disk is the one the last call left. When fewer
  than \<^verbatim>\<open>maxSessions\<close> sessions ran, no task of the final disk is eligible for the filter:
  the loop stops only then, whatever the results of the sessions, and makes no further
  call.
\<close>

theorem loop_bounded_in_order:
  "\<exists>n rs cs w'.
     loop_from query clock ty mt maxSessions 0 [] w = (Inr (n, rs), w') \<and>
     calls w' = calls w @ cs \<and> length cs = length rs \<and>
     int (length rs) \<le> max 0 maxSessions \<and>
     list_all (call_ok ty mt) cs \<and>
     chained query 0 (disk_of w) cs (disk_of w') \<and>
     map featureId rs = map (prompt_id \<circ> prompt \<circ> snd) cs \<and>
     (int (length rs) < maxSessions \<longrightarrow> none_eligible ty (disk_of w'))"
  using loop_from_run[of query clock ty mt maxSessions 0 "[]" w] by simp

text \<open>
  Three runs with an agent that completes the task it is asked for. The queue
  \<^verbatim>\<open>[F001, F002]\<close> with \<^verbatim>\<open>maxSessions = 5\<close> and no filter: two sessions, for \<^verbatim>\<open>F001\<close> and then
  \<^verbatim>\<open>F002\<close>, two calls, and no incomplete task left. The queue \<^verbatim>\<open>[F002, F001]\<close> with the filter
  \<^verbatim>\<open>bugfix\<close>: one session, for the bugfix \<^verbatim>\<open>F002\<close>, one call, and the loop stops with \<^verbatim>\<open>F001\<close>
  still incomplete, no bugfix being left. The queue \<^verbatim>\<open>[F001, F002]\<close> with the filter \<^verbatim>\<open>bugfix\<close>:
  the first session is for \<^verbatim>\<open>F001\<close>, the earliest incomplete task, the second for \<^verbatim>\<open>F002\<close>.
\<close>

theorem loop_scenarios_witness:
  "(\<exists>rs w'. loop_from (\<lambda>n. runAgentQuery agent_completes) (\<lambda>n. t0) None 50 5 0 []
        \<lparr>disk_of = disk_with [F001, F002], calls = []\<rparr> = (Inr (3, rs), w') \<and>
      map featureId rs = [''F001'', ''F002''] \<and> map success rs = [True, True] \<and>
      length (calls w') = 2 \<and> none_eligible None (disk_of w')) \<and>
   (\<exists>rs w'. loop_from (\<lambda>n. runAgentQuery agent_completes) (\<lambda>n. t0) (Some ''bugfix'') 50 5 0 []
        \<lparr>disk_of = disk_with [F002, F001], calls = []\<rparr> = (Inr (2, rs), w') \<and>
      map featureId rs = [''F002''] \<and> map success rs = [True] \<and>
      length (calls w') = 1 \<and> none_eligible (Some ''bugfix'') (disk_of w') \<and>
      \<not> none_eligible None (disk_of w')) \<and>
   (\<exists>rs w'. loop_from (\<lambda>n. runAgentQuery agent_completes) (\<lambda>n. t0) (Some ''bugfix'') 50 5 0 []
        \<lparr>disk_of = disk_with [F001, F002], calls = []\<rparr> = (Inr (3, rs), w') \<and>
      map featureId rs = [''F001'', ''F002''] \<and> map success rs = [True, True] \<and>
      length (calls w') = 2 \<and> none_eligible (Some ''bugfix'') (disk_of w'))"
proof -
  let ?q = "\<lambda>n::int. runAgentQuery agent_completes"
  let ?c = "\<lambda>n::int. t0"
  let ?w1 = "\<lparr>disk_of = disk_with [F001, F002], calls = []\<rparr>"
  let ?w2 = "\<lparr>disk_of = disk_with [F002, F001], calls = []\<rparr>"
  have e1: "\<exists>rs w'. loop_from ?q ?c None 50 5 0 [] ?w1 = (Inr (3, rs), w') \<and>
     map featureId rs = [''F001'', ''F002''] \<and> map success rs = [True, True] \<and>
     length (calls w') = 2 \<and> length rs = 2"
    by (simp add: nextTask_def session_eval agent_completes_def)
  have e2: "\<exists>rs w'. loop_from ?q ?c (Some ''bugfix'') 50 5 0 [] ?w2 = (Inr (2, rs), w') \<and>
     map featureId rs = [''F002''] \<and> map success rs = [True] \<and>
     length (calls w') = 1 \<and> length rs = 1 \<and> F001 \<in> set (stored_features (disk_of w'))"
    by (simp add: nextTask_def getNextFeatureByType_def type_matches_def session_eval
        agent_completes_def stored_features_def)
  have e3: "\<exists>rs w'. loop_from ?q ?c (Some ''bugfix'') 50 5 0 [] ?w1 = (Inr (3, rs), w') \<and>
     map featureId rs = [''F001'', ''F002''] \<and> map success rs = [True, True] \<and>
     length (calls w') = 2 \<and> length rs = 2"
    by (simp add: nextTask_def getNextFeatureByType_def type_matches_def session_eval
        agent_completes_def)
  have 1: "\<exists>rs w'. loop_from ?q ?c None 50 5 0 [] ?w1 = (Inr (3, rs), w') \<and>
      map featureId rs = [''F001'', ''F002''] \<and> map success rs = [True, True] \<and>
      length (calls w') = 2 \<and> none_eligible None (disk_of w')"
  proof -
    from e1 obtain rs w' where e: "loop_from ?q ?c None 50 5 0 [] ?w1 = (Inr (3, rs), w')"
      "map featureId rs = [''F001'', ''F002'']" "map success rs = [True, True]"
      "length (calls w') = 2" "length rs = 2" by auto
    from loop_bounded_in_order[of ?q ?c None 50 5 ?w1]
    obtain n rs' cs w'' where t: "loop_from ?q ?c None 50 5 0 [] ?w1 = (Inr (n, rs'), w'')"
      "int (length rs') < 5 \<longrightarrow> none_eligible None (disk_of w'')" by blast
    from e(1) t(1) have "rs' = rs" "w'' = w'" by simp_all
    with e(5) t(2) have nt: "none_eligible None (disk_of w')" by simp
    show ?thesis
      by (rule exI[of _ rs], rule exI[of _ w'], intro conjI) (fact e nt)+
  qed
  have 2: "\<exists>rs w'. loop_from ?q ?c (Some ''bugfix'') 50 5 0 [] ?w2 = (Inr (2, rs), w') \<and>
      map featureId rs = [''F002''] \<and> map success rs = [True] \<and>
      length (calls w') = 1 \<and> none_eligible (Some ''bugfix'') (disk_of w') \<and>
      \<not> none_eligible None (disk_of w')"
  proof -
    from e2 obtain rs w' where e: "loop_from ?q ?c (Some ''bugfix'') 50 5 0 [] ?w2 = (Inr (2, rs), w')"
      "map featureId rs = [''F002'']" "map success rs = [True]"
      "length (calls w') = 1" "length rs = 1" "F001 \<in> set (stored_features (disk_of w'))" by auto
    have "eligible (active_filter None) F001"
      by (simp add: eligible_def active_filter_def F001_def)
    with e(6) have ne: "\<not> none_eligible None (disk_of w')"
      unfolding none_eligible_def by (rule_tac notI) (drule bspec, assumption, simp)
    from loop_bounded_in_order[of ?q ?c "Some ''bugfix''" 50 5 ?w2]
    obtain n rs' cs w'' where t: "loop_from ?q ?c (Some ''bugfix'') 50 5 0 [] ?w2 = (Inr (n, rs'), w'')"
      "int (length rs') < 5 \<longrightarrow> none_eligible (Some ''bugfix'') (disk_of w'')" by blast
    from e(1) t(1) have "rs' = rs" "w'' = w'" by simp_all
    with e(5) t(2) have nt: "none_eligible (Some ''bugfix'') (disk_of w')" by simp
    show ?thesis
      by (rule exI[of _ rs], rule exI[of _ w'], intro conjI) (fact e nt ne)+
  qed
  have 3: "\<exists>rs w'. loop_from ?q ?c (Some ''bugfix'') 50 5 0 [] ?w1 = (Inr (3, rs), w') \<and>
      map featureId rs = [''F001'', ''F002''] \<and> map success rs = [True, True] \<and>
      length (calls w') = 2 \<and> none_eligible (Some ''bugfix'') (disk_of w')"
  proof -
    from e3 obtain rs w' where e: "loop_from ?q ?c (Some ''bugfix'') 50 5 0 [] ?w1 = (Inr (3, rs), w')"
      "map featureId rs = [''F001'', ''F002'']" "map success rs = [True, True]"
      "length (calls w') = 2" "length rs = 2" by auto
    from loop_bounded_in_order[of ?q ?c "Some ''bugfix''" 50 5 ?w1]
    obtain n rs' cs w'' where t: "loop_from ?q ?c (Some ''bugfix'') 50 5 0 [] ?w1 = (Inr (n, rs'), w'')"
      "int (length rs') < 5 \<longrightarrow> none_eligible (Some ''bugfix'') (disk_of w'')" by blast
    from e(1) t(1) have "rs' = rs" "w'' = w'" by simp_all
    with e(5) t(2) have nt: "none_eligible (Some ''bugfix'') (disk_of w')" by simp
    show ?thesis
      by (rule exI[of _ rs], rule exI[of _ w'], intro conjI) (fact e nt)+
  qed
  from 1 2 3 show ?thesis by (intro conjI)
qed

text \<open>
  The loop command with \<^verbatim>\<open>maxSessions = 1\<close> on a queue of three incomplete tasks runs exactly
  one session, whatever the agent does; and a session that fails is followed by the next
  one, for the same task.
\<close>

lemma loop_command_one_session:
  "\<exists>r w'. loop_command True query clock None mt 1
        \<lparr>disk_of = disk_with [F001, F002, F003], calls = []\<rparr> = (Done 1 [r], w') \<and>
     featureId r = ''F001'' \<and> length (calls w') = 1"
proof -
  let ?w = "\<lparr>disk_of = disk_with [F001, F002, F003], calls = []\<rparr>"
  have b: "buildSessionContext (disk_of ?w) = Inr (Some F001)"
    by (simp add: session_eval)
  from runSession_selected[OF b, of "query 1" "clock 1" mt]
  obtain r where r: "runSession (query 1) (clock 1) mt ?w =
      (Inr r, \<lparr>disk_of = snd (query 1 \<lparr>prompt = Coding_prompt F001, maxTurns = mt\<rparr> (disk_of ?w)),
               calls = calls ?w @ [(disk_of ?w, \<lparr>prompt = Coding_prompt F001, maxTurns = mt\<rparr>)]\<rparr>)"
    and i: "featureId r = id_f F001" by blast
  have n: "nextTask None (disk_of ?w) = Inr (Some F001)"
    by (simp add: nextTask_def session_eval)
  show ?thesis
    using r i n by (simp add: loop_command_def existsSync_def disk_with_def F001_def)
qed

lemma loop_command_retries:
  "\<exists>rs w'. loop_command True
        (\<lambda>n. runAgentQuery (if n = 1 then agent_claims_success else agent_completes)) (\<lambda>n. t0)
        None 50 3 \<lparr>disk_of = disk_with [F001, F002], calls = []\<rparr> = (Done 3 rs, w') \<and>
     map featureId rs = [''F001'', ''F001'', ''F002''] \<and> map success rs = [False, True, True] \<and>
     length (calls w') = 3"
  by (simp add: loop_command_def existsSync_def nextTask_def session_eval
      agent_claims_success_def agent_completes_def)

section \<open>The extractors\<close>























text \<open>
  The checks are those of JavaScript truthiness: an id, title or description that is a
  number other than zero, \<^verbatim>\<open>true\<close>, a list or an object is accepted, as the code accepts it.
\<close>

lemma validateFeature_accepts_non_strings:
  "adder_validateFeature
     (JObj [(''id'', JNum 7 0), (''title'', JBool True), (''description'', JArr []),
            (''acceptance_criteria'', JArr [JNull]), (''passes'', JBool True)]) = Inr True"
  by code_simp


text \<open>
  Which strategy recovers what. The fenced block is recovered by strategy 2 and the JSON
  after prose by strategy 3, after the earlier strategies fail; strategies 4 and 5 recover
  the JSON after prose too. Several lines between prose are recovered when the braces
  inside the string value balance, and not when they do not.
\<close>

lemma cascade_strategies:
  "try_feature (trim shape_fenced) = None \<and>
   feature_strategy2 shape_fenced = Some (task_obj ''F010'' ''T'') \<and>
   try_feature (trim shape_prose) = None \<and> feature_strategy2 shape_prose = None \<and>
   feature_strategy3 shape_prose = Some (task_obj ''F010'' ''T'') \<and>
   feature_strategy4 shape_prose = Some (task_obj ''F010'' ''T'') \<and>
   feature_strategy5 shape_prose = Some (task_obj ''F010'' ''T'') \<and>
   parseFeature shape_lines_prose = Some (task_obj ''F010'' ''Use {x} here'') \<and>
   parseFeature shape_fragile = None \<and>
   parseFeature shape_array = Some (task_obj ''F010'' ''T'')"
proof -
  have 1: "try_feature (trim shape_fenced) = None" by code_simp
  have 2: "feature_strategy2 shape_fenced = Some (task_obj ''F010'' ''T'')" by code_simp
  have 3: "try_feature (trim shape_prose) = None" by code_simp
  have 4: "feature_strategy2 shape_prose = None" by code_simp
  have 5: "feature_strategy3 shape_prose = Some (task_obj ''F010'' ''T'')" by code_simp
  have 6: "feature_strategy4 shape_prose = Some (task_obj ''F010'' ''T'')" by code_simp
  have 7: "feature_strategy5 shape_prose = Some (task_obj ''F010'' ''T'')" by code_simp
  have 8: "parseFeature shape_lines_prose = Some (task_obj ''F010'' ''Use {x} here'')" by code_simp
  have 9: "parseFeature shape_fragile = None" by code_simp
  have 10: "parseFeature shape_array = Some (task_obj ''F010'' ''T'')" by code_simp
  from 1 2 3 4 5 6 7 8 9 10 show ?thesis by blast
qed

section \<open>Appending tasks\<close>

lemma find_same_id: "\<exists>f \<in> set fs. same_id v f \<Longrightarrow> \<exists>g. find (same_id v) fs = Some g"
  by (cases "find (same_id v) fs") (auto simp: find_None_iff)

lemma addFeature_duplicate:
  assumes l: "loadFeatureList (disk_of w) = Inr (Some fl)"
    and q: "query \<lparr>prompt = Adder_prompt ty descr fl, maxTurns = 15\<rparr> (disk_of w) = (Inr res, d')"
    and p: "parseFeature (q_output res) = Some v"
    and d: "\<exists>f \<in> set (features fl). same_id v f"
  shows "\<exists>r w'. addFeature query dbg ty descr w = Some (r, w') \<and> \<not> a_success r \<and> disk_of w' = d'"
proof -
  from find_same_id[OF d] obtain g where g: "find (same_id v) (features fl) = Some g" ..
  show ?thesis
  proof (cases "adder_validateFeature v")
    case (Inl t)
    with l q p g show ?thesis by (simp add: addFeature_def Let_def adder_failure_def)
  next
    case (Inr ok)
    with l q p g show ?thesis by (simp add: addFeature_def Let_def adder_failure_def)
  qed
qed

lemma atomizeFeature_duplicate:
  assumes l: "loadFeatureList (disk_of w) = Inr (Some fl)"
    and q: "query \<lparr>prompt = Atomizer_prompt ty descr fl, maxTurns = 20\<rparr> (disk_of w) = (Inr res, d')"
    and p: "parseFeatures (q_output res) = Some vs"
    and d: "\<exists>v \<in> set vs. \<exists>f \<in> set (features fl). same_id v f"
  shows "\<exists>r w'. atomizeFeature query dbg ty descr w = Some (r, w') \<and> \<not> z_success r \<and>
           disk_of w' = d'"
proof -
  from d have "filter (\<lambda>v. \<exists>f \<in> set (features fl). same_id v f) vs \<noteq> []"
    by (auto simp: filter_empty_conv)
  with l q p show ?thesis
    by (simp add: atomizeFeature_def Let_def atomizer_failure_def)
qed

text \<open>
  C3. When the list loads and the agent's output parses to a task (\<^verbatim>\<open>addFeature\<close>) or to a
  batch of tasks (\<^verbatim>\<open>atomizeFeature\<close>) of which one has the id of a stored task, the operation
  returns a failure and the disk is the one the agent call left: nothing of the batch is
  written.
\<close>

theorem duplicate_id_rejects_batch:
  assumes "loadFeatureList (disk_of w) = Inr (Some fl)"
  shows
    "(query \<lparr>prompt = Adder_prompt ty descr fl, maxTurns = 15\<rparr> (disk_of w) = (Inr res, d') \<and>
      parseFeature (q_output res) = Some v \<and> (\<exists>f \<in> set (features fl). same_id v f) \<longrightarrow>
      (\<exists>r w'. addFeature query dbg ty descr w = Some (r, w') \<and> \<not> a_success r \<and> disk_of w' = d')) \<and>
     (query \<lparr>prompt = Atomizer_prompt ty descr fl, maxTurns = 20\<rparr> (disk_of w) = (Inr res, d') \<and>
      parseFeatures (q_output res) = Some vs \<and>
      (\<exists>v \<in> set vs. \<exists>f \<in> set (features fl). same_id v f) \<longrightarrow>
      (\<exists>r w'. atomizeFeature query dbg ty descr w = Some (r, w') \<and> \<not> z_success r \<and>
         disk_of w' = d'))"
  using addFeature_duplicate[OF assms, of query ty descr res d' v dbg]
    atomizeFeature_duplicate[OF assms, of query ty descr res d' vs dbg]
  by blast

lemma agent_says_result:
  "runAgentQuery (agent_says out) req d =
     (Inr \<lparr>q_success = True, q_output = out, q_error = None\<rparr>, d)"
  by (simp add: runAgentQuery_def agent_says_def)

text \<open>
  The stored list \<^verbatim>\<open>[F001, F002]\<close>. A batch of two tasks whose second has the id \<^verbatim>\<open>F002\<close> is
  rejected whole, and so is a single task with the id \<^verbatim>\<open>F001\<close>; the disk is as before.
\<close>

theorem duplicate_id_rejects_batch_witness:
  "(\<exists>r w'. atomizeFeature (runAgentQuery (agent_says batch_with_duplicate)) ''debug.txt'' T_feature
       ''two tasks'' \<lparr>disk_of = disk_with [F001, F002], calls = []\<rparr> = Some (r, w') \<and>
     \<not> z_success r \<and> disk_of w' = disk_with [F001, F002]) \<and>
   (\<exists>r w'. addFeature (runAgentQuery (agent_says (task_json ''F001'' ''T''))) ''debug.txt'' T_feature
       ''one task'' \<lparr>disk_of = disk_with [F001, F002], calls = []\<rparr> = Some (r, w') \<and>
     \<not> a_success r \<and> disk_of w' = disk_with [F001, F002])"
proof -
  let ?w = "\<lparr>disk_of = disk_with [F001, F002], calls = []\<rparr>"
  let ?fl = "demo_list\<lparr>features := [F001, F002]\<rparr>"
  have l: "loadFeatureList (disk_of ?w) = Inr (Some ?fl)"
    by (simp add: loadFeatureList_eq disk_with_def)
  have p1: "parseFeatures batch_with_duplicate =
      Some [task_obj ''F010'' ''T'', task_obj ''F002'' ''U'']" by code_simp
  have d1: "\<exists>v \<in> set [task_obj ''F010'' ''T'', task_obj ''F002'' ''U''].
      \<exists>f \<in> set (features ?fl). same_id v f"
    by (simp add: same_id_def task_obj_def F001_def F002_def)
  have p2: "parseFeature (task_json ''F001'' ''T'') = Some (task_obj ''F001'' ''T'')" by code_simp
  have d2: "\<exists>f \<in> set (features ?fl). same_id (task_obj ''F001'' ''T'') f"
    by (simp add: same_id_def task_obj_def F001_def F002_def)
  note t1 = duplicate_id_rejects_batch[OF l,
      where query = "runAgentQuery (agent_says batch_with_duplicate)" and ty = T_feature
        and descr = "''two tasks''" and dbg = "''debug.txt''"
        and res = "\<lparr>q_success = True, q_output = batch_with_duplicate, q_error = None\<rparr>"
        and d' = "disk_with [F001, F002]"
        and vs = "[task_obj ''F010'' ''T'', task_obj ''F002'' ''U'']"]
  note t2 = duplicate_id_rejects_batch[OF l,
      where query = "runAgentQuery (agent_says (task_json ''F001'' ''T''))" and ty = T_feature
        and descr = "''one task''" and dbg = "''debug.txt''"
        and res = "\<lparr>q_success = True, q_output = task_json ''F001'' ''T'', q_error = None\<rparr>"
        and d' = "disk_with [F001, F002]"
        and v = "task_obj ''F001'' ''T''"]
  let ?res1 = "\<lparr>q_success = True, q_output = batch_with_duplicate, q_error = None\<rparr>"
  let ?res2 = "\<lparr>q_success = True, q_output = task_json ''F001'' ''T'', q_error = None\<rparr>"
  have h1: "runAgentQuery (agent_says batch_with_duplicate)
        \<lparr>prompt = Atomizer_prompt T_feature ''two tasks'' ?fl, maxTurns = 20\<rparr> (disk_of ?w) =
        (Inr ?res1, disk_with [F001, F002]) \<and>
      parseFeatures (q_output ?res1) = Some [task_obj ''F010'' ''T'', task_obj ''F002'' ''U''] \<and>
      (\<exists>v \<in> set [task_obj ''F010'' ''T'', task_obj ''F002'' ''U''].
         \<exists>f \<in> set (features ?fl). same_id v f)"
    using p1 d1 by (simp add: agent_says_result)
  have h2: "runAgentQuery (agent_says (task_json ''F001'' ''T''))
        \<lparr>prompt = Adder_prompt T_feature ''one task'' ?fl, maxTurns = 15\<rparr> (disk_of ?w) =
        (Inr ?res2, disk_with [F001, F002]) \<and>
      parseFeature (q_output ?res2) = Some (task_obj ''F001'' ''T'') \<and>
      (\<exists>f \<in> set (features ?fl). same_id (task_obj ''F001'' ''T'') f)"
    using p2 d2 by (simp add: agent_says_result)
  have a: "\<exists>r w'. atomizeFeature (runAgentQuery (agent_says batch_with_duplicate)) ''debug.txt'' T_feature
       ''two tasks'' ?w = Some (r, w') \<and> \<not> z_success r \<and> disk_of w' = disk_with [F001, F002]"
    by (rule t1[THEN conjunct2, THEN mp, OF h1])
  have b: "\<exists>r w'. addFeature (runAgentQuery (agent_says (task_json ''F001'' ''T''))) ''debug.txt'' T_feature
       ''one task'' ?w = Some (r, w') \<and> \<not> a_success r \<and> disk_of w' = disk_with [F001, F002]"
    by (rule t2[THEN conjunct1, THEN mp, OF h2])
  from a b show ?thesis by (rule conjI)
qed

text \<open>With new ids the batch and the single task are appended, in order, after the old ones.\<close>

lemma atomizeFeature_appends_new_batch:
  "map_option (\<lambda>(r, w'). (z_success r,
       case feature_list_json (disk_of w') of Stored fl \<Rightarrow> map id_f (features fl) | _ \<Rightarrow> []))
     (atomizeFeature (runAgentQuery (agent_says batch_new)) ''debug.txt'' T_feature ''two tasks''
        \<lparr>disk_of = disk_with [F001, F002], calls = []\<rparr>) =
   Some (True, [''F001'', ''F002'', ''F010'', ''F011''])"
  by code_simp

lemma addFeature_appends_new_task:
  "map_option (\<lambda>(r, w'). (a_success r,
       case feature_list_json (disk_of w') of Stored fl \<Rightarrow> map id_f (features fl) | _ \<Rightarrow> []))
     (addFeature (runAgentQuery (agent_says shape_prose)) ''debug.txt'' T_feature ''one task''
        \<lparr>disk_of = disk_with [F001, F002], calls = []\<rparr>) =
   Some (True, [''F001'', ''F002'', ''F010''])"
  by code_simp

end
